theory Spec2Isabelle
  imports Main "HOL-Library.Word"
begin

section \<open>Machine integers and time\<close>

text \<open>
  Go's \<^verbatim>\<open>int\<close>, \<^verbatim>\<open>int64\<close> and \<^verbatim>\<open>time.Duration\<close> are 64-bit two's complement values on
  the platforms the package targets. Values whose arithmetic can wrap (expiry times, TTLs,
  durations) are \<open>64 word\<close>, read with \<open>sint\<close> and compared with the signed orders
  \<open><s\<close> and \<open>\<le>s\<close>. A clock reading is the result of \<^verbatim>\<open>time.Now().UnixNano()\<close>.
\<close>

type_synonym int64 = "64 word"

text \<open>\<^verbatim>\<open>time.Second\<close>: the number of nanoseconds in a second, as a \<^verbatim>\<open>time.Duration\<close>.\<close>

definition Second :: int64 where
  "Second = 1000000000"

section \<open>The expiring cache (package cache)\<close>

text \<open>
  \<^verbatim>\<open>type item struct { value string; expiration int64 }\<close>; the field \<^verbatim>\<open>value\<close> is
  \<open>item_value\<close> here. The cache is a \<^verbatim>\<open>sync.Map\<close> from keys to items; the model is
  sequential, so it is a finite map that each operation returns updated.
\<close>

record item =
  item_value :: string
  expiration :: int64

type_synonym cache = "string \<rightharpoonup> item"

datatype cache_error = ErrKeyNotFound | ErrKeyExpired

text \<open>\<^verbatim>\<open>cache.New()\<close>: the empty cache.\<close>

definition New_cache :: cache where
  "New_cache = Map.empty"

text \<open>
  \<^verbatim>\<open>SetString(key, value, expiration)\<close>; \<open>now\<close> is the reading of \<^verbatim>\<open>time.Now()\<close> the
  call takes. A positive TTL stores \<^verbatim>\<open>now.Add(Duration(expiration) * Second).UnixNano()\<close>,
  computed in 64 bits; any other TTL stores 0, the mark of an entry that never expires. The
  Go function's error result is always nil, so the model returns the cache only.
\<close>

definition SetString :: "cache \<Rightarrow> int64 \<Rightarrow> string \<Rightarrow> string \<Rightarrow> int64 \<Rightarrow> cache" where
  "SetString c now key val expiration_secs =
     (let exp = (if 0 <s expiration_secs then now + expiration_secs * Second else 0)
      in c(key \<mapsto> \<lparr>item_value = val, expiration = exp\<rparr>))"

text \<open>
  \<^verbatim>\<open>GetString(key)\<close> returns the error or the value, and the cache after the call: an
  expired entry is deleted. The branch for a stored value that is not an \<^verbatim>\<open>item\<close> cannot
  be taken, since \<^verbatim>\<open>SetString\<close> is the only writer; the type of the map excludes it.
\<close>

definition GetString :: "cache \<Rightarrow> int64 \<Rightarrow> string \<Rightarrow> (cache_error + string) \<times> cache" where
  "GetString c now key =
     (case c key of
        None \<Rightarrow> (Inl ErrKeyNotFound, c)
      | Some v \<Rightarrow>
          if expiration v \<noteq> 0 \<and> expiration v <s now
          then (Inl ErrKeyExpired, c(key := None))
          else (Inr (item_value v), c))"

section \<open>Values, requests and responses (package lark)\<close>

text \<open>
  A Go value of type \<^verbatim>\<open>any\<close>, as far as the package looks at it: the message content and
  a request body are such values. \<open>VString\<close> is a Go \<^verbatim>\<open>string\<close>, for which the type
  assertion \<^verbatim>\<open>.(string)\<close> succeeds; \<open>VMap\<close> is a \<^verbatim>\<open>map\<close> with string keys (also what
  \<^verbatim>\<open>json.Unmarshal\<close> into \<^verbatim>\<open>map[string]any\<close> yields), written as the list of its entries.
\<close>

datatype anyval =
    VNil
  | VString string
  | VInt int
  | VBool bool
  | VList "anyval list"
  | VMap "(string \<times> anyval) list"

text \<open>\<^verbatim>\<open>type Request struct\<close> and \<^verbatim>\<open>type Response struct\<close> of request.go.\<close>

record Request =
  Method :: string
  URL :: string
  Headers :: "(string \<times> string) list"
  QueryParams :: "(string \<times> string) list"
  Body :: anyval

record Response =
  StatusCode :: int
  RespBody :: string
  RespHeaders :: "string \<rightharpoonup> string list"

text \<open>
  Indexing the header map, \<^verbatim>\<open>resp.Headers[k]\<close>: a key that is not in a Go map gives the
  nil slice. The index is a plain map lookup, so the key must be spelled as it is stored;
  \<^verbatim>\<open>executeRequest\<close> fills the map from \<^verbatim>\<open>resp.Header()\<close> of the HTTP client.
\<close>

definition header :: "Response \<Rightarrow> string \<Rightarrow> string list" where
  "header resp k = (case RespHeaders resp k of None \<Rightarrow> [] | Some vs \<Rightarrow> vs)"

text \<open>
  The errors of the package, one constructor for each message it formats; a wrapped error
  (\<^verbatim>\<open>%w\<close>) is an argument.
  \<^item> \<open>ExecuteFailed e\<close>: "failed to execute request: e", \<open>e\<close> the transport's error;
  \<^item> \<open>RateLimitExceeded n\<close>: "rate limit exceeded after n retries";
  \<^item> \<open>RetriesFailed n\<close>: "failed to send request after n retries";
  \<^item> \<open>RequestTokenFailed e\<close>: "failed to request Lark App Token: e";
  \<^item> \<open>ParseTokenFailed e\<close>: "failed to parse token response: e";
  \<^item> \<open>ObtainTokenFailed msg\<close>: "failed to obtain Lark App Token: msg";
  \<^item> \<open>AppNotFound name\<close>: "lark app name not found";
  \<^item> \<open>CustomTokenError e\<close>: the error of a token function supplied in the configuration;
  \<^item> \<open>SendToRequired ch\<close>: "sendTo is required for lark app ch";
  \<^item> \<open>GetTokenFailed ch e\<close>: "failed to get token for lark app ch: e";
  \<^item> \<open>ChannelNotFound ch\<close>: "channel ch is not found in lark";
  \<^item> \<open>MarshalCardFailed e\<close>: "marshal card content failed: e";
  \<^item> \<open>MarshalContentFailed kind e\<close>: "failed to marshal kind content: e";
  \<^item> \<open>InvalidMessageType t\<close>: "invalid message type: t";
  \<^item> \<open>SendBotFailed e\<close>: "failed to send bot message: e" with \<open>e\<close> an error of the executor;
  \<^item> \<open>SendAppFailed e\<close>: "failed to send app message: e";
  \<^item> \<open>ParseResponseFailed e\<close>: "failed to parse response: e";
  \<^item> \<open>BotRejected msg\<close>: "failed to send bot message: msg", \<open>msg\<close> the platform's message;
  \<^item> \<open>AppRejected msg\<close>: the platform's message alone;
  \<^item> \<open>GenerateCardFailed e\<close>: "failed to generate card message: e";
  \<^item> \<open>NoSendingChannels\<close>, \<open>DefaultChannelRequired\<close>, \<open>LarkConfigError name\<close>,
    \<open>InvalidAppType t\<close>, \<open>PoolFailed e\<close>: the errors of \<^verbatim>\<open>validateConfig\<close> and \<^verbatim>\<open>New\<close>;
  \<^item> \<open>Panic\<close>: a run-time panic (a failed type assertion, a negative channel size).
\<close>

datatype error =
    ExecuteFailed string
  | RateLimitExceeded int
  | RetriesFailed int
  | RequestTokenFailed error
  | ParseTokenFailed string
  | ObtainTokenFailed string
  | AppNotFound string
  | CustomTokenError string
  | SendToRequired string
  | GetTokenFailed string error
  | ChannelNotFound string
  | MarshalCardFailed string
  | MarshalContentFailed string string
  | InvalidMessageType string
  | SendBotFailed error
  | SendAppFailed error
  | ParseResponseFailed string
  | BotRejected string
  | AppRejected string
  | GenerateCardFailed string
  | NoSendingChannels
  | DefaultChannelRequired
  | LarkConfigError string
  | InvalidAppType string
  | PoolFailed string
  | Panic

text \<open>
  \<^verbatim>\<open>type Message struct\<close>, \<^verbatim>\<open>appTokenResp\<close> and \<^verbatim>\<open>messageResp\<close> of lark.go. The response
  codes are only compared with 0; \<open>Expire\<close> enters \<^verbatim>\<open>rs.Expire-100\<close>, which is 64-bit
  arithmetic.
\<close>

record Message =
  ID :: string
  SendChannelName :: string
  SendTo :: string
  MsgType :: string
  MsgLevel :: string
  Title :: string
  Content :: anyval

record appTokenResp =
  Code :: int
  Msg :: string
  AppAccessToken :: string
  Expire :: int64

record messageResp =
  RespCode :: int
  RespMsg :: string

text \<open>
  A local wall-clock time, as \<^verbatim>\<open>time.Now()\<close> shows it to \<^verbatim>\<open>Format\<close>.
\<close>

record civil =
  year :: nat
  month :: nat
  day :: nat
  hour :: nat
  minute :: nat
  second :: nat

section \<open>The environment and the state\<close>

text \<open>
  What the package calls and does not define, taken as parameters:
  \<^item> \<open>transport n r\<close>: the outcome of \<^verbatim>\<open>req.Execute\<close> (resty) for request \<open>r\<close> when \<open>n\<close>
    requests have been executed before; \<open>Inl\<close> is a transport failure;
  \<^item> \<open>clock n\<close>: \<^verbatim>\<open>time.Now().UnixNano()\<close> at the reading number \<open>n\<close>, and \<open>local n\<close> the
    same reading as a local date and time;
  \<^item> \<open>unmarshal_token\<close>, \<open>unmarshal_message\<close>, \<open>unmarshal_any\<close>: \<^verbatim>\<open>json.Unmarshal\<close> into an
    \<^verbatim>\<open>appTokenResp\<close>, a \<^verbatim>\<open>messageResp\<close>, a \<^verbatim>\<open>map[string]any\<close>; \<open>marshal\<close>:
    \<^verbatim>\<open>json.Marshal\<close>;
  \<^item> \<open>msgID_New n\<close>: the identifier \<^verbatim>\<open>n.msgID.New()\<close> returns on its call number \<open>n\<close>;
  \<^item> \<open>GOMAXPROCS\<close>: \<^verbatim>\<open>runtime.GOMAXPROCS(0)\<close>.
\<close>

record env =
  transport :: "nat \<Rightarrow> Request \<Rightarrow> string + Response"
  clock :: "nat \<Rightarrow> int64"
  local :: "nat \<Rightarrow> civil"
  unmarshal_token :: "string \<Rightarrow> string + appTokenResp"
  unmarshal_message :: "string \<Rightarrow> string + messageResp"
  unmarshal_any :: "string \<Rightarrow> string + anyval"
  marshal :: "anyval \<Rightarrow> string + string"
  msgID_New :: "nat \<Rightarrow> string"
  GOMAXPROCS :: int

text \<open>
  The state the notifier changes: the requests executed so far and the durations slept so
  far (oldest first), the token cache \<^verbatim>\<open>n.cache\<close>, the content of the channel
  \<^verbatim>\<open>n.messages\<close> (oldest first), and how many clock readings and identifiers have been
  taken.
\<close>

record world =
  calls :: "Request list"
  sleeps :: "int64 list"
  store :: cache
  messages :: "Message list"
  ticks :: nat
  ids :: nat

definition world0 :: world where
  "world0 = \<lparr>calls = [], sleeps = [], store = New_cache, messages = [], ticks = 0, ids = 0\<rparr>"

section \<open>The request executor (request.go)\<close>

text \<open>
  \<^verbatim>\<open>strconv.Atoi\<close> on a 64-bit platform: an optional sign and at least one decimal digit,
  nothing else; a value outside the 64-bit range is an error as well.
\<close>

datatype NumError = ErrSyntax | ErrRange

definition isDigit :: "char \<Rightarrow> bool" where
  "isDigit c = (48 \<le> (of_char c :: nat) \<and> (of_char c :: nat) \<le> 57)"

definition digitVal :: "char \<Rightarrow> int" where
  "digitVal c = int (of_char c) - 48"

fun parseDigits :: "int \<Rightarrow> string \<Rightarrow> int" where
  "parseDigits n [] = n"
| "parseDigits n (c # cs) = parseDigits (n * 10 + digitVal c) cs"

definition Atoi :: "string \<Rightarrow> NumError + int" where
  "Atoi s =
     (let neg = (s \<noteq> [] \<and> hd s = CHR ''-'');
          ds = (if s \<noteq> [] \<and> (hd s = CHR ''-'' \<or> hd s = CHR ''+'') then tl s else s)
      in if ds = [] \<or> \<not> list_all isDigit ds then Inl ErrSyntax
         else let n = (if neg then - parseDigits 0 ds else parseDigits 0 ds)
              in if n < - (2 ^ 63) \<or> 2 ^ 63 \<le> n then Inl ErrRange else Inr n)"

text \<open>\<^verbatim>\<open>extractResetTime\<close>: the first header value as a number of seconds, or 60.\<close>

definition extractResetTime :: "string list \<Rightarrow> int" where
  "extractResetTime resetHeaders =
     (case resetHeaders of
        [] \<Rightarrow> 60
      | h # _ \<Rightarrow> (case Atoi h of Inl err \<Rightarrow> 60 | Inr resetTime \<Rightarrow> resetTime))"

text \<open>
  \<^verbatim>\<open>executeRequest\<close> hands the request to the transport and records it.
\<close>

definition executeRequest :: "env \<Rightarrow> world \<Rightarrow> Request \<Rightarrow> (string + Response) \<times> world" where
  "executeRequest e w request =
     (transport e (length (calls w)) request, w\<lparr>calls := calls w @ [request]\<rparr>)"

text \<open>\<^verbatim>\<open>time.Sleep(d)\<close>: the duration is recorded.\<close>

definition Sleep :: "world \<Rightarrow> int64 \<Rightarrow> world" where
  "Sleep w d = w\<lparr>sleeps := sleeps w @ [d]\<rparr>"

text \<open>
  \<^verbatim>\<open>time.Duration(resetTime) * time.Second\<close>: a number of seconds as a duration in
  nanoseconds, in 64 bits.
\<close>

definition seconds :: "int \<Rightarrow> int64" where
  "seconds n = word_of_int n * Second"

text \<open>
  The loop \<^verbatim>\<open>for retry := 0; retry <= maxRetries; retry++\<close> of
  \<^verbatim>\<open>sendLarkAPIRequest\<close>, from the value \<open>retry\<close> on. The counter stays between 0 and
  \<open>maxRetries\<close>, so it does not wrap and is an \<open>int\<close>.
\<close>

function sendLoop :: "env \<Rightarrow> world \<Rightarrow> Request \<Rightarrow> int \<Rightarrow> int \<Rightarrow> (error + Response) \<times> world" where
  "sendLoop e w request maxRetries retry =
     (if retry \<le> maxRetries then
        (case executeRequest e w request of
           (Inl err, w1) \<Rightarrow> (Inl (ExecuteFailed err), w1)
         | (Inr resp, w1) \<Rightarrow>
             if StatusCode resp = 429 then
               (if retry < maxRetries then
                  sendLoop e
                    (Sleep w1 (seconds (extractResetTime (header resp ''x-ogw-ratelimit-reset''))))
                    request maxRetries (retry + 1)
                else (Inl (RateLimitExceeded maxRetries), w1))
             else (Inr resp, w1))
      else (Inl (RetriesFailed maxRetries), w))"
  by pat_completeness auto
termination
  by (relation "measure (\<lambda>(e, w, request, maxRetries, retry). nat (maxRetries + 1 - retry))") auto

declare sendLoop.simps [simp del]

definition sendLarkAPIRequest :: "env \<Rightarrow> world \<Rightarrow> Request \<Rightarrow> int \<Rightarrow> (error + Response) \<times> world" where
  "sendLarkAPIRequest e w request maxRetries =
     sendLoop e w request (if maxRetries \<le> 0 then 3 else maxRetries) 0"

section \<open>The card template (template.go)\<close>

text \<open>
  \<^verbatim>\<open>defaultCardMsgTmplData\<close>, the data the template is executed with.
\<close>

record defaultCardMsgTmplData =
  tmplContent :: string
  tmplTime :: string
  tmplTitle :: string
  tmplLevelColor :: string

text \<open>
  The constant \<^verbatim>\<open>defaultCardMsgTmpl\<close> as \<^verbatim>\<open>text/template\<close> parses it: literal text and
  the four actions \<^verbatim>\<open>{{.Content}}\<close>, \<^verbatim>\<open>{{.Time}}\<close>, \<^verbatim>\<open>{{.Title}}\<close> and
  \<^verbatim>\<open>{{.LevelColor}}\<close>, in this order. The five pieces of text between the actions follow,
  character for character.
\<close>

datatype tmplField = FContent | FTime | FTitle | FLevelColor

datatype tmplNode = TextNode string | FieldNode tmplField

definition tmplText1 :: string where
  \<open>tmplText1 =
     ''\<newline>'' @
     ''{\<newline>'' @
     ''    "config": {},\<newline>'' @
     ''    "i18n_elements": {\<newline>'' @
     ''        "zh_cn": [\<newline>'' @
     ''            {\<newline>'' @
     ''                "tag": "markdown",\<newline>'' @
     ''                "content": "''\<close>

definition tmplText2 :: string where
  \<open>tmplText2 =
     ''",\<newline>'' @
     ''                "text_align": "left",\<newline>'' @
     ''                "text_size": "normal"\<newline>'' @
     ''            },\<newline>'' @
     ''            {\<newline>'' @
     ''                "tag": "column_set",\<newline>'' @
     ''                "flex_mode": "none",\<newline>'' @
     ''                "background_style": "default",\<newline>'' @
     ''                "horizontal_spacing": "8px",\<newline>'' @
     ''                "horizontal_align": "left",\<newline>'' @
     ''                "columns": [\<newline>'' @
     ''                    {\<newline>'' @
     ''                        "tag": "column",\<newline>'' @
     ''                        "width": "weighted",\<newline>'' @
     ''                        "vertical_align": "top",\<newline>'' @
     ''                        "vertical_spacing": "8px",\<newline>'' @
     ''                        "background_style": "default",\<newline>'' @
     ''                        "elements": [\<newline>'' @
     ''                            {\<newline>'' @
     ''                                "tag": "hr"\<newline>'' @
     ''                            },\<newline>'' @
     ''                            {\<newline>'' @
     ''                                "tag": "column_set",\<newline>'' @
     ''                                "flex_mode": "none",\<newline>'' @
     ''                                "horizontal_spacing": "default",\<newline>'' @
     ''                                "background_style": "default",\<newline>'' @
     ''                                "columns": [\<newline>'' @
     ''                                    {\<newline>'' @
     ''                                        "tag": "column",\<newline>'' @
     ''                                        "elements": [\<newline>'' @
     ''                                            {\<newline>'' @
     ''                                                "tag": "div",\<newline>'' @
     ''                                                "text": {\<newline>'' @
     ''                                                    "tag": "plain_text",\<newline>'' @
     ''                                                    "content": "''\<close>

definition tmplText3 :: string where
  \<open>tmplText3 =
     ''",\<newline>'' @
     ''                                                    "text_size": "notation",\<newline>'' @
     ''                                                    "text_align": "left",\<newline>'' @
     ''                                                    "text_color": "grey"\<newline>'' @
     ''                                                },\<newline>'' @
     ''                                                "icon": {\<newline>'' @
     ''                                                    "tag": "standard_icon",\<newline>'' @
     ''                                                    "token": "time_outlined",\<newline>'' @
     ''                                                    "color": "grey"\<newline>'' @
     ''                                                }\<newline>'' @
     ''                                            }\<newline>'' @
     ''                                        ],\<newline>'' @
     ''                                        "width": "weighted",\<newline>'' @
     ''                                        "weight": 1\<newline>'' @
     ''                                    }\<newline>'' @
     ''                                ]\<newline>'' @
     ''                            }\<newline>'' @
     ''                        ],\<newline>'' @
     ''                        "weight": 1,\<newline>'' @
     ''                        "padding": "0px 0px 0px 0px"\<newline>'' @
     ''                    }\<newline>'' @
     ''                ],\<newline>'' @
     ''                "margin": "16px 0px 0px 0px"\<newline>'' @
     ''            }\<newline>'' @
     ''        ]\<newline>'' @
     ''    },\<newline>'' @
     ''    "i18n_header": {\<newline>'' @
     ''        "zh_cn": {\<newline>'' @
     ''            "title": {\<newline>'' @
     ''                "tag": "plain_text",\<newline>'' @
     ''                "content": "''\<close>

definition tmplText4 :: string where
  \<open>tmplText4 =
     ''"\<newline>'' @
     ''            },\<newline>'' @
     ''            "subtitle": {\<newline>'' @
     ''                "tag": "plain_text",\<newline>'' @
     ''                "content": ""\<newline>'' @
     ''            },\<newline>'' @
     ''            "template": "''\<close>

definition tmplText5 :: string where
  \<open>tmplText5 =
     ''"\<newline>'' @
     ''        }\<newline>'' @
     ''    }\<newline>'' @
     ''}\<newline>''\<close>

definition defaultCardMsgTmpl :: "tmplNode list" where
  "defaultCardMsgTmpl =
     [TextNode tmplText1, FieldNode FContent, TextNode tmplText2, FieldNode FTime,
      TextNode tmplText3, FieldNode FTitle, TextNode tmplText4, FieldNode FLevelColor,
      TextNode tmplText5]"

text \<open>
  \<^verbatim>\<open>t.Execute(&result, data)\<close>: \<^verbatim>\<open>text/template\<close> writes the text as it is and a string
  field as it is, without any escaping. Writing to a \<^verbatim>\<open>strings.Builder\<close> does not fail.
\<close>

fun fieldValue :: "defaultCardMsgTmplData \<Rightarrow> tmplField \<Rightarrow> string" where
  "fieldValue d FContent = tmplContent d"
| "fieldValue d FTime = tmplTime d"
| "fieldValue d FTitle = tmplTitle d"
| "fieldValue d FLevelColor = tmplLevelColor d"

fun Execute :: "tmplNode list \<Rightarrow> defaultCardMsgTmplData \<Rightarrow> string" where
  "Execute [] d = []"
| "Execute (TextNode s # ns) d = s @ Execute ns d"
| "Execute (FieldNode f # ns) d = fieldValue d f @ Execute ns d"

text \<open>\<^verbatim>\<open>levelColorMap\<close>, and the lookup with its default "blue".\<close>

definition levelColorMap :: "(string \<times> string) list" where
  "levelColorMap = [(''success'', ''green''), (''error'', ''red''), (''warn'', ''yellow'')]"

definition levelColorOf :: "string \<Rightarrow> string" where
  "levelColorOf level = (case map_of levelColorMap level of None \<Rightarrow> ''blue'' | Some c \<Rightarrow> c)"

text \<open>
  \<^verbatim>\<open>Format("2006-01-02 15:04:05")\<close>: Go writes the year with \<^verbatim>\<open>appendInt(b, year, 4)\<close> and
  the other fields with width 2, that is, in decimal and padded with zeros on the left up
  to the width.
\<close>

definition digitChar :: "nat \<Rightarrow> char" where
  "digitChar n = char_of (48 + n)"

fun decimal :: "nat \<Rightarrow> string" where
  "decimal n = (if n < 10 then [digitChar n] else decimal (n div 10) @ [digitChar (n mod 10)])"

declare decimal.simps [simp del]

definition appendInt :: "nat \<Rightarrow> nat \<Rightarrow> string" where
  "appendInt x width =
     replicate (width - length (decimal x)) (CHR ''0'') @ decimal x"

definition timeFormat :: "civil \<Rightarrow> string" where
  "timeFormat t =
     appendInt (year t) 4 @ ''-'' @ appendInt (month t) 2 @ ''-'' @ appendInt (day t) 2
     @ '' '' @ appendInt (hour t) 2 @ '':'' @ appendInt (minute t) 2
     @ '':'' @ appendInt (second t) 2"

text \<open>
  \<^verbatim>\<open>generateTextCardMsgWithLevel\<close>. The template is parsed once from a constant, which
  succeeds; the clock is read once; the rendered text is decoded by \<^verbatim>\<open>json.Unmarshal\<close>.
\<close>

definition cardData :: "env \<Rightarrow> world \<Rightarrow> string \<Rightarrow> string \<Rightarrow> string \<Rightarrow> defaultCardMsgTmplData" where
  "cardData e w level title content =
     \<lparr>tmplContent = content,
      tmplTime = timeFormat (local e (ticks w)),
      tmplTitle = title,
      tmplLevelColor = levelColorOf level\<rparr>"

definition generateTextCardMsgWithLevel ::
    "env \<Rightarrow> world \<Rightarrow> string \<Rightarrow> string \<Rightarrow> string \<Rightarrow> (string + anyval) \<times> world" where
  "generateTextCardMsgWithLevel e w level title content =
     (let data = cardData e w level title content;
          w1 = w\<lparr>ticks := ticks w + 1\<rparr>;
          result = Execute defaultCardMsgTmpl data
      in case unmarshal_any e result of
           Inl err \<Rightarrow> (Inl err, w1)
         | Inr prettyJSON \<Rightarrow> (Inr prettyJSON, w1))"

text \<open>
  The shape \<^verbatim>\<open>YYYY-MM-DD HH:MM:SS\<close>: 19 characters, digits except for the separators.
\<close>

definition timestamp_form :: "string \<Rightarrow> bool" where
  "timestamp_form s =
     (length s = 19
      \<and> list_all isDigit (take 4 s) \<and> s ! 4 = CHR ''-''
      \<and> list_all isDigit (take 2 (drop 5 s)) \<and> s ! 7 = CHR ''-''
      \<and> list_all isDigit (take 2 (drop 8 s)) \<and> s ! 10 = CHR '' ''
      \<and> list_all isDigit (take 2 (drop 11 s)) \<and> s ! 13 = CHR '':''
      \<and> list_all isDigit (take 2 (drop 14 s)) \<and> s ! 16 = CHR '':''
      \<and> list_all isDigit (take 2 (drop 17 s)))"


section \<open>Submitting a message (lark.go)\<close>

definition shouldGenerateCardMsg :: "Message \<Rightarrow> bool" where
  "shouldGenerateCardMsg message =
     (MsgLevel message \<noteq> [] \<and> Title message \<noteq> []
      \<and> (MsgType message = [] \<or> MsgType message = ''text''))"

text \<open>
  \<^verbatim>\<open>n.messages <- message\<close>. The model is sequential: the message is appended; that the
  send waits while the channel is full is not modelled.
\<close>

definition enqueue :: "world \<Rightarrow> Message \<Rightarrow> world" where
  "enqueue w message = w\<lparr>messages := messages w @ [message]\<rparr>"

text \<open>
  \<^verbatim>\<open>SubmitMessage\<close> returns the identifier and the error (\<open>None\<close> is nil), and the state.
\<close>

definition assignID :: "env \<Rightarrow> world \<Rightarrow> Message \<Rightarrow> Message \<times> world" where
  "assignID e w message =
     (if ID message = [] then (message\<lparr>ID := msgID_New e (ids w)\<rparr>, w\<lparr>ids := ids w + 1\<rparr>)
      else (message, w))"

definition SubmitMessage :: "env \<Rightarrow> world \<Rightarrow> Message \<Rightarrow> (string \<times> error option) \<times> world" where
  "SubmitMessage e w message0 =
     (case assignID e w message0 of (message, w1) \<Rightarrow>
        if shouldGenerateCardMsg message then
          (case Content message of
             VString content \<Rightarrow>
               (case generateTextCardMsgWithLevel e w1 (MsgLevel message) (Title message) content of
                  (Inl err, w2) \<Rightarrow> ((ID message, Some (GenerateCardFailed err)), w2)
                | (Inr cardContent, w2) \<Rightarrow>
                    ((ID message, None),
                     enqueue w2 (message\<lparr>MsgType := ''interactive'', Content := cardContent\<rparr>)))
           | _ \<Rightarrow> ((ID message, None), enqueue w1 message))
        else ((ID message, None), enqueue w1 message))"

text \<open>
  The first step of \<^verbatim>\<open>SubmitMessage\<close>, seen from outside: the identifier the call returns
  and the state after an identifier has been generated, if one was.
\<close>

definition submittedID :: "env \<Rightarrow> world \<Rightarrow> Message \<Rightarrow> string" where
  "submittedID e w message = (if ID message = [] then msgID_New e (ids w) else ID message)"

definition afterID :: "world \<Rightarrow> Message \<Rightarrow> world" where
  "afterID w message = (if ID message = [] then w\<lparr>ids := ids w + 1\<rparr> else w)"


section \<open>Tokens (lark.go)\<close>

definition tokenCacheKey :: "string \<Rightarrow> string" where
  "tokenCacheKey appID = ''lark:token:'' @ appID"

text \<open>
  The cache of the notifier, with the clock of the environment: \<^verbatim>\<open>GetString\<close> reads the
  clock only for an entry whose expiry is not 0, \<^verbatim>\<open>SetString\<close> only for a positive TTL.
\<close>

definition cache_GetString :: "env \<Rightarrow> world \<Rightarrow> string \<Rightarrow> (cache_error + string) \<times> world" where
  "cache_GetString e w key =
     (case GetString (store w) (clock e (ticks w)) key of (r, c) \<Rightarrow>
        (r, w\<lparr>store := c,
              ticks := (case store w key of
                          None \<Rightarrow> ticks w
                        | Some v \<Rightarrow> if expiration v \<noteq> 0 then ticks w + 1 else ticks w)\<rparr>))"

definition cache_SetString :: "env \<Rightarrow> world \<Rightarrow> string \<Rightarrow> string \<Rightarrow> int64 \<Rightarrow> world" where
  "cache_SetString e w key val ttl =
     w\<lparr>store := SetString (store w) (clock e (ticks w)) key val ttl,
       ticks := (if 0 <s ttl then ticks w + 1 else ticks w)\<rparr>"

definition tokenRequest :: "string \<Rightarrow> string \<Rightarrow> string \<Rightarrow> Request" where
  "tokenRequest appID appSecret appTokenAPI =
     \<lparr>Method = ''POST'', URL = appTokenAPI,
      Headers = [(''Content-Type'', ''application/json; charset=utf-8'')],
      QueryParams = [],
      Body = VMap [(''app_id'', VString appID), (''app_secret'', VString appSecret)]\<rparr>"

text \<open>
  \<^verbatim>\<open>getToken\<close>. \<open>issueToken\<close> is the part of its body after the cache lookup: the request
  to the issuance endpoint, the decoding, the check of the code and the caching with the TTL
  \<^verbatim>\<open>rs.Expire-100\<close>.
\<close>

definition issueToken :: "env \<Rightarrow> world \<Rightarrow> string \<Rightarrow> string \<Rightarrow> string \<Rightarrow> (error + string) \<times> world" where
  "issueToken e w appID appSecret appTokenAPI =
     (case sendLarkAPIRequest e w (tokenRequest appID appSecret appTokenAPI) 3 of
        (Inl err, w1) \<Rightarrow> (Inl (RequestTokenFailed err), w1)
      | (Inr response, w1) \<Rightarrow>
          (case unmarshal_token e (RespBody response) of
             Inl err \<Rightarrow> (Inl (ParseTokenFailed err), w1)
           | Inr rs \<Rightarrow>
               if Code rs \<noteq> 0 then (Inl (ObtainTokenFailed (Msg rs)), w1)
               else (Inr (AppAccessToken rs),
                     cache_SetString e w1 (tokenCacheKey appID) (AppAccessToken rs)
                       (Expire rs - 100))))"

definition getToken :: "env \<Rightarrow> world \<Rightarrow> string \<Rightarrow> string \<Rightarrow> string \<Rightarrow> (error + string) \<times> world" where
  "getToken e w appID appSecret appTokenAPI =
     (case cache_GetString e w (tokenCacheKey appID) of
        (Inr token, w1) \<Rightarrow>
          if token \<noteq> [] then (Inr token, w1)
          else issueToken e w1 appID appSecret appTokenAPI
      | (Inl err, w1) \<Rightarrow> issueToken e w1 appID appSecret appTokenAPI)"

section \<open>Sending through a webhook and through an application\<close>

text \<open>
  The \<^verbatim>\<open>switch m.MsgType\<close> of \<^verbatim>\<open>sendBotWebhookMessage\<close>: the entries of \<^verbatim>\<open>params\<close>
  after it, \<^verbatim>\<open>msg_type\<close> first. A type assertion \<^verbatim>\<open>m.Content.(string)\<close> on a content
  that is no string panics. A message type that no case names adds nothing.
\<close>

definition botParams :: "env \<Rightarrow> Message \<Rightarrow> error + (string \<times> anyval) list" where
  "botParams e m =
     (let params = [(''msg_type'', VString (MsgType m))] in
      if MsgType m = ''text'' then
        (case Content m of
           VString s \<Rightarrow> Inr (params @ [(''content'', VMap [(''text'', VString s)])])
         | _ \<Rightarrow> Inl Panic)
      else if MsgType m = ''post'' then
        Inr (params @ [(''content'', VMap [(''post'', Content m)])])
      else if MsgType m = ''share_chat'' then
        (case Content m of
           VString s \<Rightarrow> Inr (params @ [(''content'', VMap [(''share_chat_id'', VString s)])])
         | _ \<Rightarrow> Inl Panic)
      else if MsgType m = ''image'' then
        (case Content m of
           VString s \<Rightarrow> Inr (params @ [(''content'', VMap [(''image_key'', VString s)])])
         | _ \<Rightarrow> Inl Panic)
      else if MsgType m = ''interactive'' then
        (case marshal e (Content m) of
           Inl err \<Rightarrow> Inl (MarshalCardFailed err)
         | Inr cardJson \<Rightarrow> Inr (params @ [(''card'', VString cardJson)]))
      else Inr params)"

definition botRequest :: "string \<Rightarrow> (string \<times> anyval) list \<Rightarrow> Request" where
  "botRequest webhook params =
     \<lparr>Method = ''POST'', URL = webhook,
      Headers = [(''Content-Type'', ''application/json; charset=utf-8'')],
      QueryParams = [],
      Body = VMap params\<rparr>"

text \<open>
  \<^verbatim>\<open>sendBotWebhookMessage\<close> returns the error (\<open>None\<close> is nil) and the state.
\<close>

definition sendBotWebhookMessage :: "env \<Rightarrow> world \<Rightarrow> string \<Rightarrow> Message \<Rightarrow> error option \<times> world" where
  "sendBotWebhookMessage e w webhook m =
     (case botParams e m of
        Inl err \<Rightarrow> (Some err, w)
      | Inr params \<Rightarrow>
          (case sendLarkAPIRequest e w (botRequest webhook params) 3 of
             (Inl err, w1) \<Rightarrow> (Some (SendBotFailed err), w1)
           | (Inr response, w1) \<Rightarrow>
               (case unmarshal_message e (RespBody response) of
                  Inl err \<Rightarrow> (Some (ParseResponseFailed err), w1)
                | Inr rs \<Rightarrow>
                    if RespCode rs \<noteq> 0 then (Some (BotRejected (RespMsg rs)), w1)
                    else (None, w1))))"

text \<open>
  The \<^verbatim>\<open>switch m.MsgType\<close> of \<^verbatim>\<open>sendLarkAppMessage\<close>: the marshalled content. In the
  case "text" the error of \<^verbatim>\<open>json.Marshal\<close> is dropped, and a failed marshal leaves the
  content empty.
\<close>

definition marshalString :: "env \<Rightarrow> string \<Rightarrow> string \<Rightarrow> anyval \<Rightarrow> error + string" where
  "marshalString e kind field content =
     (case content of
        VString s \<Rightarrow>
          (case marshal e (VMap [(field, VString s)]) of
             Inl err \<Rightarrow> Inl (MarshalContentFailed kind err)
           | Inr bytes \<Rightarrow> Inr bytes)
      | _ \<Rightarrow> Inl Panic)"

definition appContent :: "env \<Rightarrow> Message \<Rightarrow> error + string" where
  "appContent e m =
     (if MsgType m = ''text'' then
        (case Content m of
           VString s \<Rightarrow>
             (case marshal e (VMap [(''text'', VString s)]) of
                Inl err \<Rightarrow> Inr []
              | Inr bytes \<Rightarrow> Inr bytes)
         | _ \<Rightarrow> Inl Panic)
      else if MsgType m = ''image'' then marshalString e ''image'' ''image_key'' (Content m)
      else if MsgType m \<in> {''audio'', ''file'', ''media'', ''sticker''} then
        marshalString e ''file'' ''file_key'' (Content m)
      else if MsgType m = ''share_chat'' then
        marshalString e ''share chat'' ''chat_id'' (Content m)
      else if MsgType m = ''share_user'' then
        marshalString e ''share user'' ''user_id'' (Content m)
      else if MsgType m \<in> {''post'', ''interactive'', ''system''} then
        (case marshal e (Content m) of
           Inl err \<Rightarrow> Inl (MarshalContentFailed (MsgType m) err)
         | Inr bytes \<Rightarrow> Inr bytes)
      else Inl (InvalidMessageType (MsgType m)))"

definition appRequest :: "string \<Rightarrow> string \<Rightarrow> Message \<Rightarrow> string \<Rightarrow> Request" where
  "appRequest tok msgAPI_url m content =
     \<lparr>Method = ''POST'', URL = msgAPI_url,
      Headers = [(''Content-Type'', ''application/json; charset=utf-8''),
                 (''Authorization'', ''Bearer '' @ tok)],
      QueryParams = [(''receive_id_type'', ''user_id'')],
      Body = VMap [(''receive_id'', VString (SendTo m)), (''msg_type'', VString (MsgType m)),
                   (''content'', VString content)]\<rparr>"

definition sendLarkAppMessage ::
    "env \<Rightarrow> world \<Rightarrow> string \<Rightarrow> string \<Rightarrow> Message \<Rightarrow> error option \<times> world" where
  "sendLarkAppMessage e w tok msgAPI_url m =
     (case appContent e m of
        Inl err \<Rightarrow> (Some err, w)
      | Inr content \<Rightarrow>
          (case sendLarkAPIRequest e w (appRequest tok msgAPI_url m content) 3 of
             (Inl err, w1) \<Rightarrow> (Some (SendAppFailed err), w1)
           | (Inr response, w1) \<Rightarrow>
               (case unmarshal_message e (RespBody response) of
                  Inl err \<Rightarrow> (Some (ParseResponseFailed err), w1)
                | Inr rs \<Rightarrow>
                    if RespCode rs \<noteq> 0 then (Some (AppRejected (RespMsg rs)), w1)
                    else (None, w1))))"

section \<open>The notifier: routing, configuration, construction (lark.go)\<close>

text \<open>
  The token function of an application: one supplied in the configuration, which may do
  anything to the state, or the default one, which is \<^verbatim>\<open>getToken\<close> with the identifier,
  the secret and the endpoint of the application.
\<close>

datatype tokenFn =
    CustomToken "world \<Rightarrow> (string + string) \<times> world"
  | DefaultToken string string string

definition callToken :: "env \<Rightarrow> world \<Rightarrow> tokenFn \<Rightarrow> (error + string) \<times> world" where
  "callToken e w f =
     (case f of
        CustomToken g \<Rightarrow>
          (case g w of
             (Inl err, w1) \<Rightarrow> (Inl (CustomTokenError err), w1)
           | (Inr t, w1) \<Rightarrow> (Inr t, w1))
      | DefaultToken appID appSecret appTokenAPI \<Rightarrow> getToken e w appID appSecret appTokenAPI)"

record app =
  token :: tokenFn
  msgAPI :: string

text \<open>
  The fields of \<^verbatim>\<open>type notify struct\<close> that are fixed at construction. The channel, the
  cache and the counters are in the state; the pool is not modelled.
\<close>

record notify =
  defaultSendChannelName :: string
  apps :: "string \<rightharpoonup> app"
  botWebhooks :: "string \<rightharpoonup> string"

text \<open>The method \<^verbatim>\<open>Token(appName)\<close> of the notifier.\<close>

definition notify_Token :: "env \<Rightarrow> notify \<Rightarrow> world \<Rightarrow> string \<Rightarrow> (error + string) \<times> world" where
  "notify_Token e n w appName =
     (case apps n appName of
        None \<Rightarrow> (Inl (AppNotFound appName), w)
      | Some a \<Rightarrow> callToken e w (token a))"

text \<open>
  \<^verbatim>\<open>sendMsg\<close>: the channel of the message or the default one, the webhooks first, then the
  applications.
\<close>

definition resolveChannel :: "notify \<Rightarrow> Message \<Rightarrow> string" where
  "resolveChannel n m =
     (if SendChannelName m = [] then defaultSendChannelName n else SendChannelName m)"

definition sendMsg :: "env \<Rightarrow> notify \<Rightarrow> world \<Rightarrow> Message \<Rightarrow> error option \<times> world" where
  "sendMsg e n w m =
     (let channel = resolveChannel n m in
      case botWebhooks n channel of
        Some webhook \<Rightarrow> sendBotWebhookMessage e w webhook m
      | None \<Rightarrow>
          (case apps n channel of
             Some a \<Rightarrow>
               if SendTo m = [] then (Some (SendToRequired channel), w)
               else
                 (case callToken e w (token a) of
                    (Inl err, w1) \<Rightarrow> (Some (GetTokenFailed channel err), w1)
                  | (Inr t, w1) \<Rightarrow> sendLarkAppMessage e w1 t (msgAPI a) m)
           | None \<Rightarrow> (Some (ChannelNotFound channel), w)))"

text \<open>
  \<^verbatim>\<open>type Config struct\<close> and \<^verbatim>\<open>type Lark struct\<close>. A Go map of the configuration is the
  list of its entries, with distinct keys; \<^verbatim>\<open>range\<close> visits them in an order the language
  does not fix, here the order of the list. \<open>Token = None\<close> is the nil function.
\<close>

record Lark =
  AppType :: string
  Token :: "(world \<Rightarrow> (string + string) \<times> world) option"
  AppID :: string
  AppSecret :: string

record Config =
  Enabled :: bool
  DefaultSendChannelName :: string
  ChannelSize :: int
  PoolSize :: int
  BotWebhooks :: "(string \<times> string) list"
  Larks :: "(string \<times> Lark) list"

text \<open>
  The three cases of the \<^verbatim>\<open>switch\<close> in \<^verbatim>\<open>validateConfig\<close>, which all fall through to
  the same \<^verbatim>\<open>return\<close>.
\<close>

definition larkConfigBad :: "Lark \<Rightarrow> bool" where
  "larkConfigBad l =
     ((Token l = None \<and> AppID l = [] \<and> AppSecret l = [])
      \<or> (AppID l \<noteq> [] \<and> AppSecret l = [])
      \<or> (AppID l = [] \<and> AppSecret l \<noteq> []))"

text \<open>
  \<^verbatim>\<open>validateConfig\<close> returns the error, or the configuration with the sizes it has set.
\<close>

definition validateConfig :: "env \<Rightarrow> Config \<Rightarrow> error + Config" where
  "validateConfig e config =
     (let webhookCount = length (BotWebhooks config);
          larkCount = length (Larks config)
      in if webhookCount = 0 \<and> larkCount = 0 then Inl NoSendingChannels
         else if DefaultSendChannelName config = [] then Inl DefaultChannelRequired
         else
           (case (if webhookCount = 0 \<and> larkCount \<noteq> 0
                  then find (\<lambda>(name, l). larkConfigBad l) (Larks config) else None) of
              Some (name, l) \<Rightarrow> Inl (LarkConfigError name)
            | None \<Rightarrow>
                (let config1 = (if ChannelSize config = 0
                                then config\<lparr>ChannelSize := 10 * GOMAXPROCS e\<rparr> else config);
                     config2 = (if PoolSize config1 = 0
                                then config1\<lparr>PoolSize := 10 * GOMAXPROCS e\<rparr> else config1)
                 in Inr config2)))"

definition feishuHost :: string where
  "feishuHost = ''https://open.feishu.cn''"

definition larkHost :: string where
  "larkHost = ''https://open.larksuite.com''"

definition appAccessTokenAPI :: string where
  "appAccessTokenAPI = ''/open-apis/auth/v3/app_access_token/internal/''"

definition messageAPI :: string where
  "messageAPI = ''/open-apis/im/v1/messages''"

text \<open>\<^verbatim>\<open>util.SpliceStr\<close> concatenates its arguments.\<close>

definition SpliceStr :: "string list \<Rightarrow> string" where
  "SpliceStr p = concat p"

text \<open>
  The loop \<^verbatim>\<open>for name, lark := range config.Larks\<close> of \<^verbatim>\<open>New\<close>, which fills \<^verbatim>\<open>n.apps\<close>
  and stops at the first application it rejects.
\<close>

definition initApp :: "string \<Rightarrow> Lark \<Rightarrow> error + app" where
  "initApp name lark =
     (if AppType lark \<noteq> ''feishu'' \<and> AppType lark \<noteq> ''lark'' then Inl (InvalidAppType (AppType lark))
      else
        (let host = (if AppType lark = ''feishu'' then feishuHost else larkHost);
             msgAPI_url = SpliceStr [host, messageAPI];
             appTokenAPI = SpliceStr [host, appAccessTokenAPI]
         in case Token lark of
              None \<Rightarrow>
                if AppID lark = [] \<or> AppSecret lark = [] then Inl (LarkConfigError name)
                else Inr \<lparr>token = DefaultToken (AppID lark) (AppSecret lark) appTokenAPI,
                          msgAPI = msgAPI_url\<rparr>
            | Some g \<Rightarrow> Inr \<lparr>token = CustomToken g, msgAPI = msgAPI_url\<rparr>))"

fun initApps :: "(string \<times> Lark) list \<Rightarrow> (string \<rightharpoonup> app) \<Rightarrow> error + (string \<rightharpoonup> app)" where
  "initApps [] acc = Inr acc"
| "initApps ((name, lark) # rest) acc =
     (case initApp name lark of
        Inl err \<Rightarrow> Inl err
      | Inr a \<Rightarrow> initApps rest (acc(name \<mapsto> a)))"

text \<open>
  \<^verbatim>\<open>New\<close>. \<^verbatim>\<open>make(chan Message, size)\<close> panics on a negative size, and
  \<^verbatim>\<open>ants.NewPoolWithFunc\<close> with pre-allocation refuses a size that is not positive.
\<close>

definition New :: "env \<Rightarrow> Config \<Rightarrow> error + notify" where
  "New e config0 =
     (case validateConfig e config0 of
        Inl err \<Rightarrow> Inl err
      | Inr config \<Rightarrow>
          if ChannelSize config < 0 then Inl Panic
          else if PoolSize config \<le> 0
          then Inl (PoolFailed ''can not set up a negative capacity under PreAlloc mode'')
          else
            (case initApps (Larks config) Map.empty of
               Inl err \<Rightarrow> Inl err
             | Inr as \<Rightarrow>
                 Inr \<lparr>defaultSendChannelName = DefaultSendChannelName config,
                      apps = as,
                      botWebhooks = map_of (BotWebhooks config)\<rparr>))"

section \<open>Concrete environments for the examples\<close>

text \<open>
  A platform that accepts everything: every request is answered with status 200 and the
  body of a success; the decoders know the bodies the examples use.
\<close>

definition okResponse :: Response where
  \<open>okResponse =
     \<lparr>StatusCode = 200, RespBody = ''{"code":0,"msg":"success"}'', RespHeaders = Map.empty\<rparr>\<close>

definition env0 :: env where
  \<open>env0 =
     \<lparr>transport = (\<lambda>k r. Inr okResponse),
      clock = (\<lambda>k. 1700000000000000000),
      local = (\<lambda>k. \<lparr>year = 2024, month = 5, day = 6, hour = 7, minute = 8, second = 9\<rparr>),
      unmarshal_token = (\<lambda>s. Inl ''unexpected end of JSON input''),
      unmarshal_message =
        (\<lambda>s. if s = ''{"code":0,"msg":"success"}'' then Inr \<lparr>RespCode = 0, RespMsg = ''success''\<rparr>
             else Inl ''unexpected end of JSON input''),
      unmarshal_any = (\<lambda>s. Inl ''unexpected end of JSON input''),
      marshal = (\<lambda>v. Inl ''json: unsupported value''),
      msgID_New = (\<lambda>k. ''host-1-5yc1t''),
      GOMAXPROCS = 1\<rparr>\<close>

definition req0 :: Request where
  "req0 = \<lparr>Method = ''POST'', URL = ''https://open.feishu.cn/hook'', Headers = [],
            QueryParams = [], Body = VNil\<rparr>"

text \<open>A platform that answers 429 to every request, without a reset header.\<close>

definition rateLimited :: Response where
  "rateLimited = \<lparr>StatusCode = 429, RespBody = [], RespHeaders = Map.empty\<rparr>"

definition env429 :: env where
  "env429 = env0\<lparr>transport := (\<lambda>k r. Inr rateLimited)\<rparr>"

text \<open>A transport that fails on every call; and one that fails after a first 429.\<close>

definition envDown :: env where
  "envDown = env0\<lparr>transport := (\<lambda>k r. Inl ''connection refused'')\<rparr>"

definition env429Down :: env where
  "env429Down =
     env0\<lparr>transport := (\<lambda>k r. if k = 0 then Inr rateLimited else Inl ''connection refused'')\<rparr>"

text \<open>
  A platform that answers the first request with 429 and the header
  \<^verbatim>\<open>x-ogw-ratelimit-reset: 5\<close>, and accepts the next ones. The header map is the one the
  HTTP client hands over: \<^verbatim>\<open>net/http\<close> stores a header under the canonical form of its
  name, \<^verbatim>\<open>X-Ogw-Ratelimit-Reset\<close>.
\<close>

definition rateLimitedCanonical5 :: Response where
  "rateLimitedCanonical5 =
     \<lparr>StatusCode = 429, RespBody = [],
      RespHeaders = [''X-Ogw-Ratelimit-Reset'' \<mapsto> [''5'']]\<rparr>"

definition envCanonical5 :: env where
  "envCanonical5 =
     env0\<lparr>transport := (\<lambda>k r. if k = 0 then Inr rateLimitedCanonical5 else Inr okResponse)\<rparr>"

definition hookURL :: string where
  "hookURL = ''https://open.feishu.cn/open-apis/bot/v2/hook/xxxxx''"

definition tokenURL :: string where
  "tokenURL = SpliceStr [feishuHost, appAccessTokenAPI]"

definition T0 :: int64 where
  "T0 = 1700000000000000000"

text \<open>
  A token endpoint that answers code 0 with the given token and expiry (as text in the body
  and as the number the decoder gives), and a clock that advances by 150 seconds from one
  reading to the next, starting at \<open>T0\<close>.
\<close>

definition tokenBody :: "string \<Rightarrow> string \<Rightarrow> string" where
  \<open>tokenBody tok expire =
     ''{"code":0,"msg":"ok","app_access_token":"'' @ tok @ ''","expire":'' @ expire @ ''}''\<close>

definition tokenResponse :: "string \<Rightarrow> string \<Rightarrow> Response" where
  "tokenResponse tok expire_text =
     \<lparr>StatusCode = 200, RespBody = tokenBody tok expire_text, RespHeaders = Map.empty\<rparr>"


definition envToken :: "string \<Rightarrow> string \<Rightarrow> int64 \<Rightarrow> env" where
  "envToken tok expire_text expire =
     env0\<lparr>transport := (\<lambda>k r. Inr (tokenResponse tok expire_text)),
          unmarshal_token :=
            (\<lambda>s. if s = tokenBody tok expire_text
                  then Inr \<lparr>Code = 0, Msg = ''ok'', AppAccessToken = tok, Expire = expire\<rparr>
                  else Inl ''unexpected end of JSON input''),
          clock := (\<lambda>k. T0 + of_nat k * 150000000000)\<rparr>"

text \<open>A token endpoint that rejects the credentials.\<close>

definition rejectedBody :: string where
  \<open>rejectedBody = ''{"code":10003,"msg":"invalid param"}''\<close>

definition envTokenRejected :: env where
  "envTokenRejected =
     env0\<lparr>transport :=
            (\<lambda>k r. Inr \<lparr>StatusCode = 200, RespBody = rejectedBody, RespHeaders = Map.empty\<rparr>),
          unmarshal_token :=
            (\<lambda>s. if s = rejectedBody
                  then Inr \<lparr>Code = 10003, Msg = ''invalid param'', AppAccessToken = [], Expire = 0\<rparr>
                  else Inl ''unexpected end of JSON input'')\<rparr>"


text \<open>
  The state after one issuance for the application \<^verbatim>\<open>cli_a1\<close>: the request is recorded and
  the token \<^verbatim>\<open>t-abc\<close> is cached with the given expiry; \<open>k\<close> clock readings have been taken.
\<close>

definition worldCached :: "int64 \<Rightarrow> nat \<Rightarrow> world" where
  "worldCached exp k =
     world0\<lparr>calls := [tokenRequest ''cli_a1'' ''secret'' tokenURL],
            store := [tokenCacheKey ''cli_a1'' \<mapsto> \<lparr>item_value = ''t-abc'', expiration = exp\<rparr>],
            ticks := k\<rparr>"


text \<open>A token function supplied in the configuration.\<close>

definition staticToken :: "world \<Rightarrow> (string + string) \<times> world" where
  "staticToken w = (Inr ''t-xxxxxxx'', w)"


text \<open>
  Configurations: one webhook "ops" that is also the default; the same with a default
  "alerts" that names no target; no target at all; and a webhook and an application that
  are both named "ops".
\<close>

definition cfgDangling :: Config where
  "cfgDangling =
     \<lparr>Enabled = True, DefaultSendChannelName = ''alerts'', ChannelSize = 0, PoolSize = 0,
      BotWebhooks = [(''ops'', hookURL)], Larks = []\<rparr>"

definition cfgOps :: Config where
  "cfgOps = cfgDangling\<lparr>DefaultSendChannelName := ''ops''\<rparr>"

definition cfgEmpty :: Config where
  "cfgEmpty =
     \<lparr>Enabled = True, DefaultSendChannelName = ''ops'', ChannelSize = 0, PoolSize = 0,
      BotWebhooks = [], Larks = []\<rparr>"


definition cfgBoth :: Config where
  "cfgBoth =
     \<lparr>Enabled = True, DefaultSendChannelName = ''ops'', ChannelSize = 0, PoolSize = 0,
      BotWebhooks = [(''ops'', hookURL)],
      Larks = [(''ops'', \<lparr>AppType = ''feishu'', Token = Some staticToken,
                           AppID = [], AppSecret = []\<rparr>)]\<rparr>"

text \<open>
  Notifiers: the ones \<^verbatim>\<open>New\<close> builds from the first, the second and the last of these
  configurations, and one with a webhook "ops" and an application "lark_1".
\<close>

definition nOps :: notify where
  "nOps = \<lparr>defaultSendChannelName = ''ops'', apps = Map.empty,
           botWebhooks = map_of [(''ops'', hookURL)]\<rparr>"

definition nDangling :: notify where
  "nDangling = nOps\<lparr>defaultSendChannelName := ''alerts''\<rparr>"

definition nBoth :: notify where
  "nBoth =
     \<lparr>defaultSendChannelName = ''ops'',
      apps = [''ops'' \<mapsto> \<lparr>token = CustomToken staticToken,
                             msgAPI = SpliceStr [feishuHost, messageAPI]\<rparr>],
      botWebhooks = map_of [(''ops'', hookURL)]\<rparr>"

definition nTwo :: notify where
  "nTwo =
     \<lparr>defaultSendChannelName = ''ops'',
      apps = [''lark_1'' \<mapsto> \<lparr>token = CustomToken staticToken,
                                msgAPI = SpliceStr [larkHost, messageAPI]\<rparr>],
      botWebhooks = [''ops'' \<mapsto> hookURL]\<rparr>"


text \<open>
  Messages: a plain text for "ops"; a text with a level and a title; the same with a map as
  content; a message of type "file".
\<close>

definition mOps :: Message where
  "mOps =
     \<lparr>ID = ''m1'', SendChannelName = ''ops'', SendTo = [], MsgType = ''text'',
      MsgLevel = [], Title = [], Content = VString ''build failed''\<rparr>"

definition mText :: Message where
  "mText =
     \<lparr>ID = [], SendChannelName = ''ops'', SendTo = [], MsgType = ''text'',
      MsgLevel = ''error'', Title = ''Deploy'', Content = VString ''build failed''\<rparr>"

definition mMap :: Message where
  "mMap = mText\<lparr>Content := VMap [(''text'', VString ''build failed'')]\<rparr>"

definition mFile :: Message where
  "mFile = mText\<lparr>ID := ''m2'', MsgType := ''file'', MsgLevel := [], Title := [],
                 Content := VString ''file_v2_xxx''\<rparr>"


text \<open>
  The text the template renders for \<open>mText\<close> at the local time of \<open>env0\<close>, the value
  \<^verbatim>\<open>json.Unmarshal\<close> decodes it to (the numbers of the template are integral), and an
  environment whose decoder knows this text.
\<close>

definition renderedExample :: string where
  "renderedExample =
     tmplText1 @ ''build failed'' @ tmplText2 @ ''2024-05-06 07:08:09'' @ tmplText3
     @ ''Deploy'' @ tmplText4 @ ''red'' @ tmplText5"

definition cardExample :: anyval where
  "cardExample =
     VMap
      [(''config'', VMap []),
       (''i18n_elements'', VMap
        [(''zh_cn'', VList
          [VMap
            [(''tag'', VString ''markdown''),
             (''content'', VString ''build failed''),
             (''text_align'', VString ''left''),
             (''text_size'', VString ''normal'')],
           VMap
            [(''tag'', VString ''column_set''),
             (''flex_mode'', VString ''none''),
             (''background_style'', VString ''default''),
             (''horizontal_spacing'', VString ''8px''),
             (''horizontal_align'', VString ''left''),
             (''columns'', VList
              [VMap
                [(''tag'', VString ''column''),
                 (''width'', VString ''weighted''),
                 (''vertical_align'', VString ''top''),
                 (''vertical_spacing'', VString ''8px''),
                 (''background_style'', VString ''default''),
                 (''elements'', VList
                  [VMap
                    [(''tag'', VString ''hr'')],
                   VMap
                    [(''tag'', VString ''column_set''),
                     (''flex_mode'', VString ''none''),
                     (''horizontal_spacing'', VString ''default''),
                     (''background_style'', VString ''default''),
                     (''columns'', VList
                      [VMap
                        [(''tag'', VString ''column''),
                         (''elements'', VList
                          [VMap
                            [(''tag'', VString ''div''),
                             (''text'', VMap
                              [(''tag'', VString ''plain_text''),
                               (''content'', VString ''2024-05-06 07:08:09''),
                               (''text_size'', VString ''notation''),
                               (''text_align'', VString ''left''),
                               (''text_color'', VString ''grey'')]),
                             (''icon'', VMap
                              [(''tag'', VString ''standard_icon''),
                               (''token'', VString ''time_outlined''),
                               (''color'', VString ''grey'')])]]),
                         (''width'', VString ''weighted''),
                         (''weight'', VInt 1)]])]]),
                 (''weight'', VInt 1),
                 (''padding'', VString ''0px 0px 0px 0px'')]]),
             (''margin'', VString ''16px 0px 0px 0px'')]])]),
       (''i18n_header'', VMap
        [(''zh_cn'', VMap
          [(''title'', VMap
            [(''tag'', VString ''plain_text''),
             (''content'', VString ''Deploy'')]),
           (''subtitle'', VMap
            [(''tag'', VString ''plain_text''),
             (''content'', VString '''')]),
           (''template'', VString ''red'')])])]"

definition envCard :: env where
  "envCard =
     env0\<lparr>unmarshal_any :=
            (\<lambda>s. if s = renderedExample then Inr cardExample
                  else Inl ''invalid character in string literal'')\<rparr>"


section \<open>Properties of the cache\<close>

lemma sint_Second: "sint Second = 1000000000"
  by (simp add: Second_def)

text \<open>
  The stored expiry of a positive TTL is the exact sum, whenever that sum is a 64-bit value
  (the product alone may wrap; the sum is what counts).
\<close>

lemma sint_expiry_exact:
  fixes now ttl :: int64
  assumes "- (2 ^ 63) \<le> sint now + sint ttl * 1000000000"
    and "sint now + sint ttl * 1000000000 < 2 ^ 63"
  shows "sint (now + ttl * Second) = sint now + sint ttl * 1000000000"
proof -
  have "now + ttl * Second = word_of_int (sint now + sint ttl * 1000000000)"
    by (simp add: Second_def)
  then have "sint (now + ttl * Second) = signed_take_bit 63 (sint now + sint ttl * 1000000000)"
    by (simp only: sint_sbintrunc') simp
  also have "\<dots> = sint now + sint ttl * 1000000000"
    using assms by (simp add: signed_take_bit_int_eq_self)
  finally show ?thesis .
qed

lemma SetString_lookup:
  "SetString c now key val ttl key =
     Some \<lparr>item_value = val,
           expiration = (if 0 <s ttl then now + ttl * Second else 0)\<rparr>"
  by (simp add: SetString_def)

lemma GetString_absent: "c key = None \<Longrightarrow> GetString c now key = (Inl ErrKeyNotFound, c)"
  by (simp add: GetString_def)

lemma GetString_never_expires:
  "c key = Some v \<Longrightarrow> expiration v = 0 \<Longrightarrow> GetString c now key = (Inr (item_value v), c)"
  by (simp add: GetString_def)

lemma GetString_expired:
  "c key = Some v \<Longrightarrow> expiration v \<noteq> 0 \<Longrightarrow> sint (expiration v) < sint now \<Longrightarrow>
   GetString c now key = (Inl ErrKeyExpired, c(key := None))"
  by (simp add: GetString_def word_sless_alt)

lemma GetString_fresh:
  "c key = Some v \<Longrightarrow> sint now \<le> sint (expiration v) \<Longrightarrow>
   GetString c now key = (Inr (item_value v), c)"
  by (simp add: GetString_def word_sless_alt)

text \<open>
  Where the sum does not fit, the stored expiry wraps: an entry set with a TTL of
  9223372037 seconds is reported expired one nanosecond later.
\<close>

lemma expiry_wraps:
  "fst (GetString (SetString New_cache 1700000000000000000 ''k'' ''v'' 9223372037)
          1700000000000000001 ''k'') = Inl ErrKeyExpired"
  by (simp add: GetString_def SetString_def New_cache_def Second_def word_sless_alt)

text \<open>
  C5, as amended. For every cache, key and value, with \<open>t0\<close> the clock reading of the set
  and clock readings in 64-bit nanoseconds:
  \<^item> an entry set with TTL 0 is returned by a get at any clock reading, and the cache is
    left as it was;
  \<^item> an entry set with a TTL of at least one second, at a clock reading \<open>t0\<close> not before the
    Unix epoch, is reported expired by a get whose clock reading is strictly more than TTL
    seconds after \<open>t0\<close>; that get deletes the entry, and a get at any clock reading on the
    cache it leaves reports "not found" and leaves the cache unchanged (so every later get
    does);
  \<^item> when \<open>t0\<close> plus the TTL of at least one second is still a 64-bit number of nanoseconds
    (less than \<open>2^63\<close>; beyond it the stored expiry wraps), a get whose clock reading is
    at most TTL seconds after \<open>t0\<close>, exactly TTL seconds included, still returns the value;
  \<^item> a get on a key that is not in the cache reports "not found".
\<close>

theorem C5_cache_set_get:
  "GetString (SetString c t0 key val 0) t1 key = (Inr val, SetString c t0 key val 0)
   \<and> (1 \<le> sint ttl \<and> 0 \<le> sint t0 \<and> sint t0 + sint ttl * 1000000000 < sint t1 \<longrightarrow>
        GetString (SetString c t0 key val ttl) t1 key
          = (Inl ErrKeyExpired, (SetString c t0 key val ttl)(key := None))
        \<and> GetString ((SetString c t0 key val ttl)(key := None)) t2 key
          = (Inl ErrKeyNotFound, (SetString c t0 key val ttl)(key := None)))
   \<and> (1 \<le> sint ttl \<and> sint t0 + sint ttl * 1000000000 < 2 ^ 63
        \<and> sint t1 \<le> sint t0 + sint ttl * 1000000000 \<longrightarrow>
        GetString (SetString c t0 key val ttl) t1 key = (Inr val, SetString c t0 key val ttl))
   \<and> (c key = None \<longrightarrow> GetString c t1 key = (Inl ErrKeyNotFound, c))"
proof (intro conjI impI)
  show "GetString (SetString c t0 key val 0) t1 key = (Inr val, SetString c t0 key val 0)"
    using GetString_never_expires [of "SetString c t0 key val 0" key _ t1]
    by (simp add: SetString_lookup)
next
  assume h: "1 \<le> sint ttl \<and> 0 \<le> sint t0 \<and> sint t0 + sint ttl * 1000000000 < sint t1"
  have "sint t1 < 2 ^ 63"
    using sint_lt [of t1] by simp
  with h have e: "sint (t0 + ttl * Second) = sint t0 + sint ttl * 1000000000"
    by (intro sint_expiry_exact) auto
  from h have pos: "0 <s ttl"
    by (simp add: word_sless_alt)
  have nz: "t0 + ttl * Second \<noteq> 0"
  proof
    assume "t0 + ttl * Second = 0"
    then have "sint (t0 + ttl * Second) = 0"
      by simp
    with e h show False
      by simp
  qed
  show "GetString (SetString c t0 key val ttl) t1 key
          = (Inl ErrKeyExpired, (SetString c t0 key val ttl)(key := None))"
    using GetString_expired [of "SetString c t0 key val ttl" key _ t1] pos nz e h
    by (simp add: SetString_lookup)
  show "GetString ((SetString c t0 key val ttl)(key := None)) t2 key
          = (Inl ErrKeyNotFound, (SetString c t0 key val ttl)(key := None))"
    by (rule GetString_absent) simp
next
  assume h: "1 \<le> sint ttl \<and> sint t0 + sint ttl * 1000000000 < 2 ^ 63
      \<and> sint t1 \<le> sint t0 + sint ttl * 1000000000"
  have "- (2 ^ 63) \<le> sint t1"
    using sint_ge [of t1] by simp
  with h have e: "sint (t0 + ttl * Second) = sint t0 + sint ttl * 1000000000"
    by (intro sint_expiry_exact) auto
  from h have pos: "0 <s ttl"
    by (simp add: word_sless_alt)
  show "GetString (SetString c t0 key val ttl) t1 key = (Inr val, SetString c t0 key val ttl)"
    using GetString_fresh [of "SetString c t0 key val ttl" key _ t1] pos e h
    by (simp add: SetString_lookup)
next
  assume "c key = None"
  then show "GetString c t1 key = (Inl ErrKeyNotFound, c)"
    by (rule GetString_absent)
qed

text \<open>
  The witness: an entry set with TTL 1 at clock reading 1700000000000000000 is expired one
  nanosecond more than a second later, is still returned exactly one second later, and a
  key of the empty cache is not found.
\<close>

theorem C5_cache_set_get_witness:
  "(1 \<le> sint (1 :: int64) \<and> 0 \<le> sint (1700000000000000000 :: int64)
      \<and> sint (1700000000000000000 :: int64) + sint (1 :: int64) * 1000000000
          < sint (1700000001000000001 :: int64))
   \<and> GetString (SetString New_cache 1700000000000000000 ''k'' ''v'' 1) 1700000001000000001 ''k''
       = (Inl ErrKeyExpired, (SetString New_cache 1700000000000000000 ''k'' ''v'' 1)(''k'' := None))
   \<and> GetString ((SetString New_cache 1700000000000000000 ''k'' ''v'' 1)(''k'' := None)) 0 ''k''
       = (Inl ErrKeyNotFound, (SetString New_cache 1700000000000000000 ''k'' ''v'' 1)(''k'' := None))
   \<and> (sint (1700000000000000000 :: int64) + sint (1 :: int64) * 1000000000 < 2 ^ 63
      \<and> sint (1700000001000000000 :: int64)
          \<le> sint (1700000000000000000 :: int64) + sint (1 :: int64) * 1000000000)
   \<and> GetString (SetString New_cache 1700000000000000000 ''k'' ''v'' 1) 1700000001000000000 ''k''
       = (Inr ''v'', SetString New_cache 1700000000000000000 ''k'' ''v'' 1)
   \<and> New_cache ''k'' = None
   \<and> GetString New_cache 1700000001000000000 ''k'' = (Inl ErrKeyNotFound, New_cache)"
  using C5_cache_set_get [of New_cache 1700000000000000000 "''k''" "''v''"
      1700000001000000001 1 0]
    C5_cache_set_get [of New_cache 1700000000000000000 "''k''" "''v''"
      1700000001000000000 1 0]
  by (simp add: New_cache_def)

text \<open>
  C5 as stated fails at the boundary: an entry set with TTL 1 and read exactly one second
  (1000000000 ns, which is "at least TTL seconds") later is returned, not reported expired,
  because \<^verbatim>\<open>GetString\<close> tests \<^verbatim>\<open>now > expiration\<close>.
\<close>

theorem C5_counterexample:
  "sint (1700000000000000000 :: int64) + 1 * 1000000000 \<le> sint (1700000001000000000 :: int64)
   \<and> fst (GetString (SetString New_cache 1700000000000000000 ''k'' ''v'' 1)
             1700000001000000000 ''k'') = Inr ''v''
   \<and> fst (GetString (SetString New_cache 1700000000000000000 ''k'' ''v'' 1)
             1700000001000000000 ''k'') \<noteq> Inl ErrKeyExpired"
  by (simp add: GetString_def SetString_def New_cache_def Second_def word_sless_alt)

section \<open>Properties of the request executor\<close>

lemma sendLoop_transport_error:
  "retry \<le> maxRetries \<Longrightarrow> transport e (length (calls w)) request = Inl err \<Longrightarrow>
   sendLoop e w request maxRetries retry
     = (Inl (ExecuteFailed err), w\<lparr>calls := calls w @ [request]\<rparr>)"
  by (subst sendLoop.simps) (simp add: executeRequest_def)

lemma sendLoop_other_status:
  "retry \<le> maxRetries \<Longrightarrow> transport e (length (calls w)) request = Inr resp \<Longrightarrow>
   StatusCode resp \<noteq> 429 \<Longrightarrow>
   sendLoop e w request maxRetries retry = (Inr resp, w\<lparr>calls := calls w @ [request]\<rparr>)"
  by (subst sendLoop.simps) (simp add: executeRequest_def)

lemma sendLoop_429_retry:
  "retry < maxRetries \<Longrightarrow> transport e (length (calls w)) request = Inr resp \<Longrightarrow>
   StatusCode resp = 429 \<Longrightarrow>
   sendLoop e w request maxRetries retry
     = sendLoop e
         (Sleep (w\<lparr>calls := calls w @ [request]\<rparr>)
            (seconds (extractResetTime (header resp ''x-ogw-ratelimit-reset''))))
         request maxRetries (retry + 1)"
  by (subst sendLoop.simps) (simp add: executeRequest_def)

lemma sendLoop_429_last:
  "transport e (length (calls w)) request = Inr resp \<Longrightarrow> StatusCode resp = 429 \<Longrightarrow>
   sendLoop e w request maxRetries maxRetries
     = (Inl (RateLimitExceeded maxRetries), w\<lparr>calls := calls w @ [request]\<rparr>)"
  by (subst sendLoop.simps) (simp add: executeRequest_def)

text \<open>
  Against a platform that answers 429 every time, the loop started at \<open>retry\<close> executes
  the request \<open>maxRetries - retry + 1\<close> times, sleeps between two attempts, and gives up.
\<close>

lemma sendLoop_always_429:
  assumes srv: "\<And>k r. \<exists>resp. transport e k r = Inr resp \<and> StatusCode resp = 429"
  shows "retry \<le> maxRetries \<Longrightarrow>
    \<exists>w'. sendLoop e w request maxRetries retry = (Inl (RateLimitExceeded maxRetries), w')
      \<and> calls w' = calls w @ replicate (nat (maxRetries - retry) + 1) request
      \<and> length (sleeps w') = length (sleeps w) + nat (maxRetries - retry)"
proof (induction "nat (maxRetries - retry)" arbitrary: retry w)
  case 0
  then have eq: "retry = maxRetries"
    by simp
  obtain resp where r: "transport e (length (calls w)) request = Inr resp" "StatusCode resp = 429"
    using srv by blast
  show ?case
    unfolding eq using sendLoop_429_last [OF r] by simp
next
  case (Suc k)
  then have lt: "retry < maxRetries"
    by simp
  obtain resp where r: "transport e (length (calls w)) request = Inr resp" "StatusCode resp = 429"
    using srv by blast
  let ?w1 = "Sleep (w\<lparr>calls := calls w @ [request]\<rparr>)
            (seconds (extractResetTime (header resp ''x-ogw-ratelimit-reset'')))"
  have k: "k = nat (maxRetries - (retry + 1))"
    using Suc.hyps(2) by simp
  have le: "retry + 1 \<le> maxRetries"
    using lt by simp
  from Suc.hyps(1) [OF k le, of ?w1]
  obtain w' where w':
    "sendLoop e ?w1 request maxRetries (retry + 1) = (Inl (RateLimitExceeded maxRetries), w')"
    "calls w' = calls ?w1 @ replicate (nat (maxRetries - (retry + 1)) + 1) request"
    "length (sleeps w') = length (sleeps ?w1) + nat (maxRetries - (retry + 1))"
    by blast
  have n: "nat (maxRetries - retry) = Suc (nat (maxRetries - (retry + 1)))"
    using lt by simp
  show ?case
    using w' sendLoop_429_retry [OF lt r]
    by (simp add: Sleep_def n replicate_append_same)
qed

text \<open>The executor only adds to the record of sleeps.\<close>

lemma sendLoop_sleeps_prefix:
  "\<exists>ds. sleeps (snd (sendLoop e w request maxRetries retry)) = sleeps w @ ds"
proof (induction e w request maxRetries retry rule: sendLoop.induct)
  case (1 e w request maxRetries retry)
  show ?case
  proof (cases "transport e (length (calls w)) request")
    case (Inl err)
    then show ?thesis
      by (subst sendLoop.simps) (simp add: executeRequest_def)
  next
    case (Inr resp)
    show ?thesis
    proof (cases "retry < maxRetries \<and> StatusCode resp = 429")
      case True
      then have "retry \<le> maxRetries"
        by simp
      from "1.IH" [OF this, of "Inr resp" "w\<lparr>calls := calls w @ [request]\<rparr>" resp] True Inr
      obtain ds where "sleeps (snd (sendLoop e
          (Sleep (w\<lparr>calls := calls w @ [request]\<rparr>)
            (seconds (extractResetTime (header resp ''x-ogw-ratelimit-reset''))))
          request maxRetries (retry + 1)))
        = sleeps (Sleep (w\<lparr>calls := calls w @ [request]\<rparr>)
            (seconds (extractResetTime (header resp ''x-ogw-ratelimit-reset'')))) @ ds"
        by (auto simp: executeRequest_def)
      with True Inr show ?thesis
        by (subst sendLoop.simps) (simp add: executeRequest_def Sleep_def)
    next
      case False
      with Inr show ?thesis
        by (subst sendLoop.simps) (auto simp add: executeRequest_def)
    qed
  qed
qed

lemma sint_seconds:
  assumes "0 \<le> n" and "n \<le> 9223372036"
  shows "sint (seconds n) = n * 1000000000"
proof -
  have "seconds n = word_of_int (n * 1000000000)"
    by (simp add: seconds_def Second_def)
  then have "sint (seconds n) = signed_take_bit 63 (n * 1000000000)"
    by (simp only: sint_sbintrunc') simp
  also have "\<dots> = n * 1000000000"
    using assms by (simp add: signed_take_bit_int_eq_self)
  finally show ?thesis .
qed

lemma extractResetTime_cases:
  "extractResetTime [] = 60"
  "Atoi h = Inr n \<Longrightarrow> extractResetTime (h # hs) = n"
  "Atoi h = Inl err \<Longrightarrow> extractResetTime (h # hs) = 60"
  by (simp_all add: extractResetTime_def)

lemma Atoi_examples:
  "Atoi ''5'' = Inr 5"
  "Atoi [] = Inl ErrSyntax"
  "Atoi ''not-a-number'' = Inl ErrSyntax"
  by (simp_all add: Atoi_def isDigit_def digitVal_def)

text \<open>
  When the header map has no entry under the key the code uses, the wait is the default of
  60 seconds, whatever the map holds under other keys.
\<close>

lemma reset_header_absent:
  "RespHeaders resp ''x-ogw-ratelimit-reset'' = None \<Longrightarrow>
   extractResetTime (header resp ''x-ogw-ratelimit-reset'') = 60"
  by (simp add: header_def extractResetTime_def)

text \<open>
  C2, as amended. Against a platform that answers HTTP 429 to every attempt,
  \<^verbatim>\<open>sendLarkAPIRequest\<close> called with 3 retries executes the request exactly 4 times,
  sleeps 3 times and returns the rate-limit error; called with any number of retries that
  is at least 1 it executes the request that number plus one times; a number of retries
  that is 0 or negative is replaced by 3, so the call behaves as the call with 3 retries.
\<close>

theorem C2_rate_limit_attempts:
  "(\<forall>k r. \<exists>resp. transport e k r = Inr resp \<and> StatusCode resp = 429) \<Longrightarrow>
   fst (sendLarkAPIRequest e w request 3) = Inl (RateLimitExceeded 3)
   \<and> calls (snd (sendLarkAPIRequest e w request 3)) = calls w @ replicate 4 request
   \<and> length (sleeps (snd (sendLarkAPIRequest e w request 3))) = length (sleeps w) + 3
   \<and> (1 \<le> maxRetries \<longrightarrow>
        fst (sendLarkAPIRequest e w request maxRetries) = Inl (RateLimitExceeded maxRetries)
        \<and> calls (snd (sendLarkAPIRequest e w request maxRetries))
            = calls w @ replicate (nat maxRetries + 1) request
        \<and> length (sleeps (snd (sendLarkAPIRequest e w request maxRetries)))
            = length (sleeps w) + nat maxRetries)
   \<and> (maxRetries \<le> 0 \<longrightarrow>
        sendLarkAPIRequest e w request maxRetries = sendLarkAPIRequest e w request 3)"
proof -
  assume srv: "\<forall>k r. \<exists>resp. transport e k r = Inr resp \<and> StatusCode resp = 429"
  have gen: "fst (sendLarkAPIRequest e w request m) = Inl (RateLimitExceeded m)
        \<and> calls (snd (sendLarkAPIRequest e w request m)) = calls w @ replicate (nat m + 1) request
        \<and> length (sleeps (snd (sendLarkAPIRequest e w request m))) = length (sleeps w) + nat m"
    if "1 \<le> m" for m
  proof -
    from srv have "\<And>k r. \<exists>resp. transport e k r = Inr resp \<and> StatusCode resp = 429"
      by blast
    from sendLoop_always_429 [OF this, of 0 m w request] that
    show ?thesis
      by (auto simp: sendLarkAPIRequest_def)
  qed
  from gen [of 3] gen [of maxRetries] show ?thesis
    by (simp add: sendLarkAPIRequest_def eval_nat_numeral)
qed

text \<open>
  The witness: the platform that always answers 429, with 3 and with 5 retries.
\<close>

theorem C2_rate_limit_attempts_witness:
  "(\<forall>k r. \<exists>resp. transport env429 k r = Inr resp \<and> StatusCode resp = 429)
   \<and> fst (sendLarkAPIRequest env429 world0 req0 3) = Inl (RateLimitExceeded 3)
   \<and> calls (snd (sendLarkAPIRequest env429 world0 req0 3)) = [req0, req0, req0, req0]
   \<and> length (sleeps (snd (sendLarkAPIRequest env429 world0 req0 3))) = 3
   \<and> (1 :: int) \<le> 5
   \<and> calls (snd (sendLarkAPIRequest env429 world0 req0 5)) = [req0, req0, req0, req0, req0, req0]"
proof -
  have srv: "\<forall>k r. \<exists>resp. transport env429 k r = Inr resp \<and> StatusCode resp = 429"
    by (simp add: env429_def rateLimited_def)
  from C2_rate_limit_attempts [OF srv, of world0 req0 5] srv show ?thesis
    by (simp add: world0_def eval_nat_numeral)
qed

text \<open>
  C2 as stated says that the number of attempts is the number of retries plus one in
  general. Called with 0 retries against the platform that always answers 429, the
  executor makes 4 attempts, not 1.
\<close>

theorem C2_counterexample:
  "fst (sendLarkAPIRequest env429 world0 req0 0) = Inl (RateLimitExceeded 3)
   \<and> length (calls (snd (sendLarkAPIRequest env429 world0 req0 0))) = 4
   \<and> length (calls (snd (sendLarkAPIRequest env429 world0 req0 0))) \<noteq> 0 + 1"
  by (simp add: sendLarkAPIRequest_def sendLoop.simps env429_def env0_def rateLimited_def
      world0_def executeRequest_def Sleep_def)

text \<open>
  C6 does not hold of the code. The platform answers the first attempt with 429 and the
  header \<^verbatim>\<open>x-ogw-ratelimit-reset: 5\<close>; the HTTP client stores the value under the
  canonical name \<^verbatim>\<open>X-Ogw-Ratelimit-Reset\<close>, and the value parses to 5. The executor looks
  the header up under the lower-case key, finds nothing and sleeps the default 60 seconds,
  not 5, before the second attempt, which succeeds: \<^verbatim>\<open>sendLarkAPIRequest\<close> called with 3
  retries returns the second response after two requests and one sleep of 60 seconds.
\<close>

theorem C6_reset_header_missed:
  "RespHeaders rateLimitedCanonical5 ''X-Ogw-Ratelimit-Reset'' = Some [''5'']
   \<and> extractResetTime [''5''] = 5
   \<and> header rateLimitedCanonical5 ''x-ogw-ratelimit-reset'' = []
   \<and> extractResetTime (header rateLimitedCanonical5 ''x-ogw-ratelimit-reset'') = 60
   \<and> sendLarkAPIRequest envCanonical5 world0 req0 3
       = (Inr okResponse, world0\<lparr>calls := [req0, req0], sleeps := [seconds 60]\<rparr>)
   \<and> sint (seconds 60) = 60000000000
   \<and> sint (seconds 5) = 5000000000"
proof -
  have a: "RespHeaders rateLimitedCanonical5 ''X-Ogw-Ratelimit-Reset'' = Some [''5'']"
    by (simp add: rateLimitedCanonical5_def)
  have b: "extractResetTime [''5''] = 5"
    by (simp add: extractResetTime_cases Atoi_examples)
  have c: "header rateLimitedCanonical5 ''x-ogw-ratelimit-reset'' = []"
    by (simp add: header_def rateLimitedCanonical5_def)
  have d: "extractResetTime (header rateLimitedCanonical5 ''x-ogw-ratelimit-reset'') = 60"
    by (simp add: c extractResetTime_cases)
  have first: "sendLoop envCanonical5 world0 req0 3 0
      = sendLoop envCanonical5 (world0\<lparr>calls := [req0], sleeps := [seconds 60]\<rparr>) req0 3 1"
    using sendLoop_429_retry [of 0 3 envCanonical5 world0 req0 rateLimitedCanonical5]
    by (simp add: d Sleep_def)
       (simp add: envCanonical5_def rateLimitedCanonical5_def world0_def)
  have second: "sendLoop envCanonical5 (world0\<lparr>calls := [req0], sleeps := [seconds 60]\<rparr>) req0 3 1
      = (Inr okResponse, world0\<lparr>calls := [req0, req0], sleeps := [seconds 60]\<rparr>)"
    using sendLoop_other_status [of 1 3 envCanonical5
        "world0\<lparr>calls := [req0], sleeps := [seconds 60]\<rparr>" req0 okResponse]
    by (simp add: envCanonical5_def okResponse_def world0_def)
  have e: "sendLarkAPIRequest envCanonical5 world0 req0 3
       = (Inr okResponse, world0\<lparr>calls := [req0, req0], sleeps := [seconds 60]\<rparr>)"
    by (simp add: sendLarkAPIRequest_def first second)
  have f: "sint (seconds 60) = 60000000000" and g: "sint (seconds 5) = 5000000000"
    by (simp_all add: sint_seconds)
  from a b c d e f g show ?thesis
    by blast
qed

text \<open>
  C8. When the transport fails on an attempt, whichever attempt it is, the executor returns
  the transport's error wrapped as "failed to execute request" at once: the request of this
  attempt is the only thing added to the state, so there is no further attempt and no sleep.
  In particular a failure of the first attempt ends the call, whatever the number of
  retries.
\<close>

theorem C8_transport_error_no_retry:
  "(retry \<le> maxRetries \<and> transport e (length (calls w)) request = Inl err \<longrightarrow>
      sendLoop e w request maxRetries retry
        = (Inl (ExecuteFailed err), w\<lparr>calls := calls w @ [request]\<rparr>))
   \<and> (transport e (length (calls w)) request = Inl err \<longrightarrow>
      sendLarkAPIRequest e w request maxRetries
        = (Inl (ExecuteFailed err), w\<lparr>calls := calls w @ [request]\<rparr>))"
  by (simp add: sendLoop_transport_error sendLarkAPIRequest_def)

text \<open>
  The witness: a transport that refuses every connection, and one that refuses the
  connection on the second attempt, after a first answer 429 and the sleep of 60 seconds.
\<close>

theorem C8_transport_error_no_retry_witness:
  "transport envDown (length (calls world0)) req0 = Inl ''connection refused''
   \<and> sendLarkAPIRequest envDown world0 req0 3
       = (Inl (ExecuteFailed ''connection refused''), world0\<lparr>calls := [req0]\<rparr>)
   \<and> (1 :: int) \<le> 3
   \<and> transport env429Down (length (calls (world0\<lparr>calls := [req0], sleeps := [seconds 60]\<rparr>))) req0
       = Inl ''connection refused''
   \<and> sendLoop env429Down (world0\<lparr>calls := [req0], sleeps := [seconds 60]\<rparr>) req0 3 1
       = (Inl (ExecuteFailed ''connection refused''),
          world0\<lparr>calls := [req0, req0], sleeps := [seconds 60]\<rparr>)"
  using C8_transport_error_no_retry [of 0 3 envDown world0 req0 "''connection refused''"]
    C8_transport_error_no_retry [of 1 3 env429Down
      "world0\<lparr>calls := [req0], sleeps := [seconds 60]\<rparr>" req0 "''connection refused''"]
  by (simp add: envDown_def env429Down_def env0_def world0_def)

lemma sendLoop_calls_first:
  "retry \<le> maxRetries \<Longrightarrow>
   \<exists>rest. calls (snd (sendLoop e w request maxRetries retry)) = calls w @ request # rest"
proof (induction e w request maxRetries retry rule: sendLoop.induct)
  case (1 e w request maxRetries retry)
  show ?case
  proof (cases "transport e (length (calls w)) request")
    case (Inl err)
    with "1.prems" show ?thesis
      by (subst sendLoop.simps) (simp add: executeRequest_def)
  next
    case (Inr resp)
    show ?thesis
    proof (cases "retry < maxRetries \<and> StatusCode resp = 429")
      case True
      let ?w1 = "Sleep (w\<lparr>calls := calls w @ [request]\<rparr>)
            (seconds (extractResetTime (header resp ''x-ogw-ratelimit-reset'')))"
      from True have le: "retry + 1 \<le> maxRetries"
        by simp
      from "1.IH" [OF "1.prems", of "Inr resp" "w\<lparr>calls := calls w @ [request]\<rparr>" resp] True Inr le
      obtain rest where "calls (snd (sendLoop e ?w1 request maxRetries (retry + 1)))
        = calls ?w1 @ request # rest"
        by (auto simp: executeRequest_def)
      with True Inr show ?thesis
        by (subst sendLoop.simps) (simp add: executeRequest_def Sleep_def)
    next
      case False
      with Inr "1.prems" show ?thesis
        by (subst sendLoop.simps) (auto simp add: executeRequest_def)
    qed
  qed
qed

lemma sendLarkAPIRequest_calls_first:
  "\<exists>rest. calls (snd (sendLarkAPIRequest e w request maxRetries)) = calls w @ request # rest"
  unfolding sendLarkAPIRequest_def by (rule sendLoop_calls_first) simp

lemma sendLoop_frame:
  "store (snd (sendLoop e w request maxRetries retry)) = store w
   \<and> ticks (snd (sendLoop e w request maxRetries retry)) = ticks w
   \<and> messages (snd (sendLoop e w request maxRetries retry)) = messages w
   \<and> ids (snd (sendLoop e w request maxRetries retry)) = ids w"
proof (induction e w request maxRetries retry rule: sendLoop.induct)
  case (1 e w request maxRetries retry)
  show ?case
  proof (cases "transport e (length (calls w)) request")
    case (Inl err)
    then show ?thesis
      by (subst sendLoop.simps, subst sendLoop.simps, subst sendLoop.simps, subst sendLoop.simps)
         (simp add: executeRequest_def)
  next
    case (Inr resp)
    show ?thesis
    proof (cases "retry \<le> maxRetries \<and> retry < maxRetries \<and> StatusCode resp = 429")
      case True
      let ?w1 = "Sleep (w\<lparr>calls := calls w @ [request]\<rparr>)
            (seconds (extractResetTime (header resp ''x-ogw-ratelimit-reset'')))"
      from True have le: "retry \<le> maxRetries"
        by simp
      from True Inr have step: "sendLoop e w request maxRetries retry
          = sendLoop e ?w1 request maxRetries (retry + 1)"
        by (simp add: sendLoop_429_retry)
      from "1.IH" [OF le, of "Inr resp" "w\<lparr>calls := calls w @ [request]\<rparr>" resp] True Inr
      have "store (snd (sendLoop e ?w1 request maxRetries (retry + 1))) = store ?w1
        \<and> ticks (snd (sendLoop e ?w1 request maxRetries (retry + 1))) = ticks ?w1
        \<and> messages (snd (sendLoop e ?w1 request maxRetries (retry + 1))) = messages ?w1
        \<and> ids (snd (sendLoop e ?w1 request maxRetries (retry + 1))) = ids ?w1"
        by (auto simp: executeRequest_def)
      then show ?thesis
        by (simp add: step Sleep_def)
    next
      case False
      with Inr have "sendLoop e w request maxRetries retry
          = (if retry \<le> maxRetries
             then (if StatusCode resp = 429
                   then (Inl (RateLimitExceeded maxRetries), w\<lparr>calls := calls w @ [request]\<rparr>)
                   else (Inr resp, w\<lparr>calls := calls w @ [request]\<rparr>))
             else (Inl (RetriesFailed maxRetries), w))"
        by (subst sendLoop.simps) (auto simp add: executeRequest_def)
      then show ?thesis
        by simp
    qed
  qed
qed

lemma sendLarkAPIRequest_frame:
  "sendLarkAPIRequest e w request maxRetries = (r, w1) \<Longrightarrow>
   store w1 = store w \<and> ticks w1 = ticks w \<and> messages w1 = messages w \<and> ids w1 = ids w"
  using sendLoop_frame [of e w request "if maxRetries \<le> 0 then 3 else maxRetries" 0]
  by (simp add: sendLarkAPIRequest_def)

lemma first_call_ok:
  "transport e (length (calls w)) request = Inr resp \<Longrightarrow> StatusCode resp \<noteq> 429 \<Longrightarrow>
   sendLarkAPIRequest e w request 3 = (Inr resp, w\<lparr>calls := calls w @ [request]\<rparr>)"
  by (simp add: sendLarkAPIRequest_def sendLoop_other_status)


section \<open>Properties of the card template and of submission\<close>

lemma isDigit_digitChar: "d < 10 \<Longrightarrow> isDigit (digitChar d)"
  by (simp add: isDigit_def digitChar_def)

lemma isDigit_zero: "isDigit (CHR ''0'')"
  by (simp add: isDigit_def)

lemma decimal_digits: "list_all isDigit (decimal n)"
proof (induction n rule: decimal.induct)
  case (1 n)
  show ?case
  proof (cases "n < 10")
    case True
    then show ?thesis
      by (subst decimal.simps) (simp add: isDigit_digitChar)
  next
    case False
    with "1.IH" show ?thesis
      by (subst decimal.simps) (simp add: isDigit_digitChar)
  qed
qed

lemma length_decimal_le: "0 < k \<Longrightarrow> n < 10 ^ k \<Longrightarrow> length (decimal n) \<le> k"
proof (induction n arbitrary: k rule: decimal.induct)
  case (1 n)
  show ?case
  proof (cases "n < 10")
    case True
    with "1.prems" show ?thesis
      by (subst decimal.simps) simp
  next
    case False
    with "1.prems" obtain j where k: "k = Suc j"
      by (cases k) auto
    with False "1.prems" have j: "0 < j"
      by (cases j) auto
    from "1.prems" k have "n div 10 < 10 ^ j"
      by (simp add: less_mult_imp_div_less mult.commute)
    from "1.IH" [OF False j this] False k show ?thesis
      by (subst decimal.simps) simp
  qed
qed

lemma appendInt_width:
  assumes "0 < k" and "n < 10 ^ k"
  shows "length (appendInt n k) = k \<and> list_all isDigit (appendInt n k)"
  using length_decimal_le [OF assms] decimal_digits [of n]
  by (auto simp: appendInt_def isDigit_zero list_all_iff)

lemma timestamp_formI:
  assumes "length a = 4 \<and> list_all isDigit a" "length b = 2 \<and> list_all isDigit b"
    "length c = 2 \<and> list_all isDigit c" "length d = 2 \<and> list_all isDigit d"
    "length f = 2 \<and> list_all isDigit f" "length g = 2 \<and> list_all isDigit g"
  shows "timestamp_form (a @ ''-'' @ b @ ''-'' @ c @ '' '' @ d @ '':'' @ f @ '':'' @ g)"
  using assms by (simp add: timestamp_form_def nth_append)

lemma timeFormat_form:
  assumes "year t \<le> 9999" "month t \<le> 12" "day t \<le> 31" "hour t \<le> 23" "minute t \<le> 59"
    "second t \<le> 59"
  shows "timestamp_form (timeFormat t)"
  unfolding timeFormat_def
  using assms
  by (intro timestamp_formI appendInt_width) simp_all

lemma timeFormat_example:
  "timeFormat \<lparr>year = 2024, month = 5, day = 6, hour = 7, minute = 8, second = 9\<rparr>
     = ''2024-05-06 07:08:09''"
  by code_simp

lemma Execute_defaultCardMsgTmpl:
  "Execute defaultCardMsgTmpl d
     = tmplText1 @ tmplContent d @ tmplText2 @ tmplTime d @ tmplText3 @ tmplTitle d
       @ tmplText4 @ tmplLevelColor d @ tmplText5"
  by (simp add: defaultCardMsgTmpl_def)

lemma levelColorOf_cases:
  "levelColorOf lvl
     = (if lvl = ''success'' then ''green'' else if lvl = ''error'' then ''red''
        else if lvl = ''warn'' then ''yellow'' else ''blue'')"
  by (simp add: levelColorOf_def levelColorMap_def)

lemma assignID_eq:
  "assignID e w message = (message\<lparr>ID := submittedID e w message\<rparr>, afterID w message)"
  by (simp add: assignID_def submittedID_def afterID_def)


text \<open>
  C1, as amended. For a message whose type is empty or "text" and whose level and title are
  not empty:
  \<^item> when the content is a string and the rendered text decodes, \<^verbatim>\<open>SubmitMessage\<close> returns
    the identifier without error and enqueues the message with the type "interactive" and
    the decoded card as content;
  \<^item> the rendered text is the template with the content, the local time of the render in
    the layout of \<^verbatim>\<open>Format("2006-01-02 15:04:05")\<close>, the title and the colour of the level
    put in, as they are; the colour is green for "success", red for "error", yellow for
    "warn" and blue for any other level; the time has the shape \<^verbatim>\<open>YYYY-MM-DD HH:MM:SS\<close>
    for a date up to the year 9999;
  \<^item> when the content is a string and the rendered text does not decode, the call returns
    the error and enqueues nothing;
  \<^item> when the content is not a string (whatever the type, level and title), the message is
    enqueued as it is, type and content unchanged.
\<close>

theorem C1_submit_card:
  "((MsgType message = [] \<or> MsgType message = ''text'') \<and> MsgLevel message \<noteq> []
      \<and> Title message \<noteq> [] \<and> Content message = VString content
      \<and> unmarshal_any e (Execute defaultCardMsgTmpl
            (cardData e (afterID w message) (MsgLevel message) (Title message) content))
          = Inr cardContent \<longrightarrow>
      SubmitMessage e w message
        = ((submittedID e w message, None),
           (afterID w message)
             \<lparr>ticks := ticks (afterID w message) + 1,
              messages := messages (afterID w message)
                @ [message\<lparr>ID := submittedID e w message, MsgType := ''interactive'',
                            Content := cardContent\<rparr>]\<rparr>))
   \<and> Execute defaultCardMsgTmpl
         (cardData e (afterID w message) (MsgLevel message) (Title message) content)
       = tmplText1 @ content @ tmplText2 @ timeFormat (local e (ticks (afterID w message)))
         @ tmplText3 @ Title message @ tmplText4 @ levelColorOf (MsgLevel message) @ tmplText5
   \<and> levelColorOf lvl
       = (if lvl = ''success'' then ''green'' else if lvl = ''error'' then ''red''
          else if lvl = ''warn'' then ''yellow'' else ''blue'')
   \<and> (year t \<le> 9999 \<and> month t \<le> 12 \<and> day t \<le> 31 \<and> hour t \<le> 23 \<and> minute t \<le> 59
        \<and> second t \<le> 59 \<longrightarrow> timestamp_form (timeFormat t))
   \<and> ((MsgType message = [] \<or> MsgType message = ''text'') \<and> MsgLevel message \<noteq> []
      \<and> Title message \<noteq> [] \<and> Content message = VString content
      \<and> unmarshal_any e (Execute defaultCardMsgTmpl
            (cardData e (afterID w message) (MsgLevel message) (Title message) content))
          = Inl err \<longrightarrow>
      SubmitMessage e w message
        = ((submittedID e w message, Some (GenerateCardFailed err)),
           (afterID w message)\<lparr>ticks := ticks (afterID w message) + 1\<rparr>))
   \<and> ((\<forall>s. Content message \<noteq> VString s) \<longrightarrow>
      SubmitMessage e w message
        = ((submittedID e w message, None),
           (afterID w message)
             \<lparr>messages := messages (afterID w message)
                @ [message\<lparr>ID := submittedID e w message\<rparr>]\<rparr>))"
proof -
  let ?id = "submittedID e w message"
  let ?w1 = "afterID w message"
  let ?text = "Execute defaultCardMsgTmpl
      (cardData e ?w1 (MsgLevel message) (Title message) content)"
  have a: "SubmitMessage e w message
        = ((?id, None),
           ?w1\<lparr>ticks := ticks ?w1 + 1,
               messages := messages ?w1
                 @ [message\<lparr>ID := ?id, MsgType := ''interactive'', Content := cardContent\<rparr>]\<rparr>)"
    if "(MsgType message = [] \<or> MsgType message = ''text'') \<and> MsgLevel message \<noteq> []
      \<and> Title message \<noteq> [] \<and> Content message = VString content
      \<and> unmarshal_any e ?text = Inr cardContent"
    using that
    by (simp add: SubmitMessage_def assignID_eq shouldGenerateCardMsg_def
        generateTextCardMsgWithLevel_def enqueue_def)
  have b: "?text
       = tmplText1 @ content @ tmplText2 @ timeFormat (local e (ticks ?w1))
         @ tmplText3 @ Title message @ tmplText4 @ levelColorOf (MsgLevel message) @ tmplText5"
    by (simp add: Execute_defaultCardMsgTmpl cardData_def)
  have d: "timestamp_form (timeFormat t)"
    if "year t \<le> 9999 \<and> month t \<le> 12 \<and> day t \<le> 31 \<and> hour t \<le> 23 \<and> minute t \<le> 59
        \<and> second t \<le> 59"
    using that by (simp add: timeFormat_form)
  have f: "SubmitMessage e w message
        = ((?id, Some (GenerateCardFailed err)), ?w1\<lparr>ticks := ticks ?w1 + 1\<rparr>)"
    if "(MsgType message = [] \<or> MsgType message = ''text'') \<and> MsgLevel message \<noteq> []
      \<and> Title message \<noteq> [] \<and> Content message = VString content
      \<and> unmarshal_any e ?text = Inl err"
    using that
    by (simp add: SubmitMessage_def assignID_eq shouldGenerateCardMsg_def
        generateTextCardMsgWithLevel_def)
  have g: "SubmitMessage e w message
        = ((?id, None), ?w1\<lparr>messages := messages ?w1 @ [message\<lparr>ID := ?id\<rparr>]\<rparr>)"
    if "\<forall>s. Content message \<noteq> VString s"
    using that
    by (cases "Content message")
       (simp_all add: SubmitMessage_def assignID_eq enqueue_def)
  from a b d f g levelColorOf_cases [of lvl] show ?thesis
    by blast
qed


text \<open>
  The witness: the message \<open>mText\<close> (type "text", level "error", title "Deploy", content
  "build failed") is enqueued as an interactive card; the same message with a map as
  content is enqueued unchanged.
\<close>

theorem C1_submit_card_witness:
  "((MsgType mText = [] \<or> MsgType mText = ''text'') \<and> MsgLevel mText \<noteq> []
      \<and> Title mText \<noteq> [] \<and> Content mText = VString ''build failed''
      \<and> unmarshal_any envCard (Execute defaultCardMsgTmpl
            (cardData envCard (afterID world0 mText) (MsgLevel mText) (Title mText)
               ''build failed''))
          = Inr cardExample)
   \<and> SubmitMessage envCard world0 mText
       = ((''host-1-5yc1t'', None),
          world0\<lparr>ids := 1, ticks := 1,
                 messages := [mText\<lparr>ID := ''host-1-5yc1t'', MsgType := ''interactive'',
                                     Content := cardExample\<rparr>]\<rparr>)
   \<and> (year (local envCard 0) \<le> 9999 \<and> month (local envCard 0) \<le> 12
      \<and> day (local envCard 0) \<le> 31 \<and> hour (local envCard 0) \<le> 23
      \<and> minute (local envCard 0) \<le> 59 \<and> second (local envCard 0) \<le> 59)
   \<and> timestamp_form (timeFormat (local envCard 0))
   \<and> (\<forall>s. Content mMap \<noteq> VString s)
   \<and> messages (snd (SubmitMessage envCard world0 mMap)) = [mMap\<lparr>ID := ''host-1-5yc1t''\<rparr>]"
proof -
  have tf: "timeFormat (local envCard 0) = ''2024-05-06 07:08:09''"
    using timeFormat_example by (simp add: envCard_def env0_def)
  have h: "(MsgType mText = [] \<or> MsgType mText = ''text'') \<and> MsgLevel mText \<noteq> []
      \<and> Title mText \<noteq> [] \<and> Content mText = VString ''build failed''"
    by (simp add: mText_def)
  have i: "submittedID envCard world0 mText = ''host-1-5yc1t''
      \<and> afterID world0 mText = world0\<lparr>ids := 1\<rparr>"
    by (simp add: submittedID_def afterID_def mText_def envCard_def env0_def world0_def)
  have r: "Execute defaultCardMsgTmpl
            (cardData envCard (afterID world0 mText) (MsgLevel mText) (Title mText)
               ''build failed'') = renderedExample"
  proof -
    have "ticks (afterID world0 mText) = 0"
      by (simp add: i) (simp add: world0_def)
    with tf show ?thesis
      by (simp add: Execute_defaultCardMsgTmpl cardData_def renderedExample_def
          levelColorOf_cases mText_def)
  qed
  have u: "unmarshal_any envCard (Execute defaultCardMsgTmpl
            (cardData envCard (afterID world0 mText) (MsgLevel mText) (Title mText)
               ''build failed'')) = Inr cardExample"
    by (simp only: r) (simp add: envCard_def)
  note T = C1_submit_card [where e = envCard and w = world0 and message = mText
      and content = "''build failed''" and cardContent = cardExample and t = "local envCard 0"]
  from T h u have s0: "SubmitMessage envCard world0 mText
        = ((submittedID envCard world0 mText, None),
           (afterID world0 mText)
             \<lparr>ticks := ticks (afterID world0 mText) + 1,
              messages := messages (afterID world0 mText)
                @ [mText\<lparr>ID := submittedID envCard world0 mText, MsgType := ''interactive'',
                          Content := cardExample\<rparr>]\<rparr>)"
    by blast
  have s: "SubmitMessage envCard world0 mText
       = ((''host-1-5yc1t'', None),
          world0\<lparr>ids := 1, ticks := 1,
                 messages := [mText\<lparr>ID := ''host-1-5yc1t'', MsgType := ''interactive'',
                                     Content := cardExample\<rparr>]\<rparr>)"
    unfolding s0 i [THEN conjunct1] i [THEN conjunct2] by (simp add: world0_def)
  have v: "year (local envCard 0) \<le> 9999 \<and> month (local envCard 0) \<le> 12
      \<and> day (local envCard 0) \<le> 31 \<and> hour (local envCard 0) \<le> 23
      \<and> minute (local envCard 0) \<le> 59 \<and> second (local envCard 0) \<le> 59"
    by (simp add: envCard_def env0_def)
  from T v have ts: "timestamp_form (timeFormat (local envCard 0))"
    by blast
  have n: "\<forall>s. Content mMap \<noteq> VString s"
    by (simp add: mMap_def)
  have j: "submittedID envCard world0 mMap = ''host-1-5yc1t''
      \<and> afterID world0 mMap = world0\<lparr>ids := 1\<rparr>"
    by (simp add: submittedID_def afterID_def mMap_def mText_def envCard_def env0_def world0_def)
  from C1_submit_card [where e = envCard and w = world0 and message = mMap] n
  have "SubmitMessage envCard world0 mMap
        = ((submittedID envCard world0 mMap, None),
           (afterID world0 mMap)
             \<lparr>messages := messages (afterID world0 mMap)
                @ [mMap\<lparr>ID := submittedID envCard world0 mMap\<rparr>]\<rparr>)"
    by blast
  then have q: "messages (snd (SubmitMessage envCard world0 mMap)) = [mMap\<lparr>ID := ''host-1-5yc1t''\<rparr>]"
    unfolding j [THEN conjunct1] j [THEN conjunct2] by (simp add: world0_def)
  from h u s v ts n q show ?thesis
    by blast
qed


text \<open>
  C1 as stated claims the rewrite for every content payload. The message \<open>mMap\<close> has the
  type "text", a level and a title, and a map as content: it is enqueued with the type
  "text" and its own content, because \<^verbatim>\<open>SubmitMessage\<close> renders the card only when
  \<^verbatim>\<open>message.Content.(string)\<close> succeeds.
\<close>

theorem C1_counterexample:
  "(MsgType mMap = [] \<or> MsgType mMap = ''text'') \<and> MsgLevel mMap \<noteq> [] \<and> Title mMap \<noteq> []
   \<and> fst (SubmitMessage env0 world0 mMap) = (''host-1-5yc1t'', None)
   \<and> messages (snd (SubmitMessage env0 world0 mMap)) = [mMap\<lparr>ID := ''host-1-5yc1t''\<rparr>]
   \<and> MsgType (mMap\<lparr>ID := ''host-1-5yc1t''\<rparr>) = ''text''
   \<and> Content (mMap\<lparr>ID := ''host-1-5yc1t''\<rparr>) = VMap [(''text'', VString ''build failed'')]"
  by (simp add: SubmitMessage_def assignID_def shouldGenerateCardMsg_def enqueue_def
      mMap_def mText_def env0_def world0_def)


section \<open>Properties of the token cache\<close>

lemma sint_minus_100:
  fixes x :: int64
  assumes "- (2 ^ 63) + 100 \<le> sint x"
  shows "sint (x - 100) = sint x - 100"
proof -
  have "sint x < 2 ^ 63"
    using sint_lt [of x] by simp
  have "x - 100 = word_of_int (sint x - 100)"
    by simp
  then have "sint (x - 100) = signed_take_bit 63 (sint x - 100)"
    by (simp only: sint_sbintrunc') simp
  also have "\<dots> = sint x - 100"
    using assms \<open>sint x < 2 ^ 63\<close> by (simp add: signed_take_bit_int_eq_self)
  finally show ?thesis .
qed

lemma cache_GetString_absent:
  "store w key = None \<Longrightarrow> cache_GetString e w key = (Inl ErrKeyNotFound, w)"
  by (simp add: cache_GetString_def GetString_absent)

lemma getToken_absent:
  "store w (tokenCacheKey appID) = None \<Longrightarrow>
   getToken e w appID appSecret appTokenAPI = issueToken e w appID appSecret appTokenAPI"
  by (simp add: getToken_def cache_GetString_absent)

lemma issueToken_success:
  assumes "sendLarkAPIRequest e w (tokenRequest appID appSecret appTokenAPI) 3 = (Inr resp, w1)"
    and "unmarshal_token e (RespBody resp) = Inr rs" and "Code rs = 0"
  shows "issueToken e w appID appSecret appTokenAPI
    = (Inr (AppAccessToken rs),
       cache_SetString e w1 (tokenCacheKey appID) (AppAccessToken rs) (Expire rs - 100))"
  using assms by (simp add: issueToken_def)

lemma issueToken_rejected:
  assumes "sendLarkAPIRequest e w (tokenRequest appID appSecret appTokenAPI) 3 = (Inr resp, w1)"
    and "unmarshal_token e (RespBody resp) = Inr rs" and "Code rs \<noteq> 0"
  shows "issueToken e w appID appSecret appTokenAPI = (Inl (ObtainTokenFailed (Msg rs)), w1)"
  using assms by (simp add: issueToken_def)

lemma issueToken_calls_first:
  "\<exists>rest. calls (snd (issueToken e w appID appSecret appTokenAPI))
     = calls w @ tokenRequest appID appSecret appTokenAPI # rest"
proof -
  let ?req = "tokenRequest appID appSecret appTokenAPI"
  obtain r w1 where rw: "sendLarkAPIRequest e w ?req 3 = (r, w1)"
    by (cases "sendLarkAPIRequest e w ?req 3")
  obtain rest where "calls (snd (sendLarkAPIRequest e w ?req 3)) = calls w @ ?req # rest"
    using sendLarkAPIRequest_calls_first by blast
  with rw have c: "calls w1 = calls w @ ?req # rest"
    by simp
  have "calls (snd (issueToken e w appID appSecret appTokenAPI)) = calls w1"
    using rw by (auto simp: issueToken_def cache_SetString_def split: sum.splits)
  with c show ?thesis
    by simp
qed

lemma getToken_hit:
  assumes "store w (tokenCacheKey appID) = Some v" and "item_value v \<noteq> []"
    and "expiration v = 0 \<or> sint (clock e (ticks w)) \<le> sint (expiration v)"
  shows "fst (getToken e w appID appSecret appTokenAPI) = Inr (item_value v)
    \<and> calls (snd (getToken e w appID appSecret appTokenAPI)) = calls w
    \<and> sleeps (snd (getToken e w appID appSecret appTokenAPI)) = sleeps w
    \<and> store (snd (getToken e w appID appSecret appTokenAPI)) = store w"
proof -
  from assms(1,3) have "GetString (store w) (clock e (ticks w)) (tokenCacheKey appID)
      = (Inr (item_value v), store w)"
    using GetString_never_expires GetString_fresh by blast
  with assms(2) show ?thesis
    by (simp add: getToken_def cache_GetString_def)
qed

lemma getToken_expired:
  assumes "store w (tokenCacheKey appID) = Some v" and "expiration v \<noteq> 0"
    and "sint (expiration v) < sint (clock e (ticks w))"
  shows "getToken e w appID appSecret appTokenAPI
    = issueToken e (w\<lparr>store := (store w)(tokenCacheKey appID := None), ticks := ticks w + 1\<rparr>)
        appID appSecret appTokenAPI"
  using assms GetString_expired [of "store w" "tokenCacheKey appID" v "clock e (ticks w)"]
  by (simp add: getToken_def cache_GetString_def)


text \<open>
  C4, as amended. With \<open>key\<close> the cache key of the application:
  \<^item> when the cache has no entry for the key and the issuance request is answered with code
    0 and \<^verbatim>\<open>expire = 300\<close>, \<^verbatim>\<open>getToken\<close> returns the token and caches it with the expiry
    "clock reading of the store + 200 seconds";
  \<^item> a resolve on a cache holding a token that is not the empty string, with that expiry,
    at a clock reading at most 200 seconds after the store, returns the cached token,
    executes no request and leaves the cache as it is (the expiry must fit in 64 bits);
  \<^item> a resolve at a clock reading more than 200 seconds after the store (taken at or
    after the Unix epoch) deletes the entry and goes on to the issuance: the next request
    executed is the one to the issuance endpoint;
  \<^item> when the cache has no entry and the issuance request is answered with a code that is
    not 0, \<^verbatim>\<open>getToken\<close> fails with "failed to obtain Lark App Token" and the platform's
    message, and the cache is as before.
\<close>

theorem C4_token_cache:
  "(sendLarkAPIRequest e w (tokenRequest appID appSecret api) 3 = (Inr resp, w1)
      \<and> unmarshal_token e (RespBody resp) = Inr rs \<and> Code rs = 0 \<and> Expire rs = 300
      \<and> store w (tokenCacheKey appID) = None \<longrightarrow>
      getToken e w appID appSecret api
        = (Inr (AppAccessToken rs),
           w1\<lparr>store := (store w1)(tokenCacheKey appID \<mapsto>
                  \<lparr>item_value = AppAccessToken rs,
                   expiration = clock e (ticks w1) + 200 * Second\<rparr>),
              ticks := ticks w1 + 1\<rparr>))
   \<and> (store w (tokenCacheKey appID) = Some \<lparr>item_value = tok, expiration = t0 + 200 * Second\<rparr>
      \<and> tok \<noteq> [] \<and> sint t0 + 200000000000 < 2 ^ 63
      \<and> sint (clock e (ticks w)) \<le> sint t0 + 200000000000 \<longrightarrow>
      fst (getToken e w appID appSecret api) = Inr tok
      \<and> calls (snd (getToken e w appID appSecret api)) = calls w
      \<and> store (snd (getToken e w appID appSecret api)) = store w)
   \<and> (store w (tokenCacheKey appID) = Some \<lparr>item_value = tok, expiration = t0 + 200 * Second\<rparr>
      \<and> 0 \<le> sint t0 \<and> sint t0 + 200000000000 < sint (clock e (ticks w)) \<longrightarrow>
      getToken e w appID appSecret api
        = issueToken e (w\<lparr>store := (store w)(tokenCacheKey appID := None), ticks := ticks w + 1\<rparr>)
            appID appSecret api
      \<and> (\<exists>rest. calls (snd (getToken e w appID appSecret api))
            = calls w @ tokenRequest appID appSecret api # rest))
   \<and> (sendLarkAPIRequest e w (tokenRequest appID appSecret api) 3 = (Inr resp, w1)
      \<and> unmarshal_token e (RespBody resp) = Inr rs \<and> Code rs \<noteq> 0
      \<and> store w (tokenCacheKey appID) = None \<longrightarrow>
      getToken e w appID appSecret api = (Inl (ObtainTokenFailed (Msg rs)), w1)
      \<and> store w1 = store w)"
proof -
  let ?key = "tokenCacheKey appID"
  have a: "getToken e w appID appSecret api
        = (Inr (AppAccessToken rs),
           w1\<lparr>store := (store w1)(?key \<mapsto>
                  \<lparr>item_value = AppAccessToken rs,
                   expiration = clock e (ticks w1) + 200 * Second\<rparr>),
              ticks := ticks w1 + 1\<rparr>)"
    if h: "sendLarkAPIRequest e w (tokenRequest appID appSecret api) 3 = (Inr resp, w1)
      \<and> unmarshal_token e (RespBody resp) = Inr rs \<and> Code rs = 0 \<and> Expire rs = 300
      \<and> store w ?key = None"
  proof -
    have "(0 :: int64) <s 200"
      by (simp add: word_sless_alt)
    with h issueToken_success [of e w appID appSecret api resp w1 rs] show ?thesis
      by (simp add: getToken_absent cache_SetString_def SetString_def)
  qed
  have b: "fst (getToken e w appID appSecret api) = Inr tok
      \<and> calls (snd (getToken e w appID appSecret api)) = calls w
      \<and> store (snd (getToken e w appID appSecret api)) = store w"
    if h: "store w ?key = Some \<lparr>item_value = tok, expiration = t0 + 200 * Second\<rparr>
      \<and> tok \<noteq> [] \<and> sint t0 + 200000000000 < 2 ^ 63
      \<and> sint (clock e (ticks w)) \<le> sint t0 + 200000000000"
  proof -
    have "- (2 ^ 63) \<le> sint t0"
      using sint_ge [of t0] by simp
    with h have "sint (t0 + 200 * Second) = sint t0 + sint (200 :: int64) * 1000000000"
      by (intro sint_expiry_exact) simp_all
    with h getToken_hit [of w appID "\<lparr>item_value = tok, expiration = t0 + 200 * Second\<rparr>" e]
    show ?thesis
      by simp
  qed
  have c: "getToken e w appID appSecret api
        = issueToken e (w\<lparr>store := (store w)(?key := None), ticks := ticks w + 1\<rparr>)
            appID appSecret api
      \<and> (\<exists>rest. calls (snd (getToken e w appID appSecret api))
            = calls w @ tokenRequest appID appSecret api # rest)"
    if h: "store w ?key = Some \<lparr>item_value = tok, expiration = t0 + 200 * Second\<rparr>
      \<and> 0 \<le> sint t0 \<and> sint t0 + 200000000000 < sint (clock e (ticks w))"
  proof -
    have "sint (clock e (ticks w)) < 2 ^ 63"
      using sint_lt [of "clock e (ticks w)"] by simp
    with h have e: "sint (t0 + 200 * Second) = sint t0 + sint (200 :: int64) * 1000000000"
      by (intro sint_expiry_exact) simp_all
    have nz: "t0 + 200 * Second \<noteq> 0"
    proof
      assume "t0 + 200 * Second = 0"
      then have "sint (t0 + 200 * Second) = 0"
        by simp
      with e h show False
        by simp
    qed
    from h e nz getToken_expired [of w appID "\<lparr>item_value = tok, expiration = t0 + 200 * Second\<rparr>" e]
    have g: "getToken e w appID appSecret api
        = issueToken e (w\<lparr>store := (store w)(?key := None), ticks := ticks w + 1\<rparr>)
            appID appSecret api"
      by simp
    obtain rest where "calls (snd (issueToken e
          (w\<lparr>store := (store w)(?key := None), ticks := ticks w + 1\<rparr>) appID appSecret api))
        = calls (w\<lparr>store := (store w)(?key := None), ticks := ticks w + 1\<rparr>)
          @ tokenRequest appID appSecret api # rest"
      using issueToken_calls_first by blast
    with g show ?thesis
      by simp
  qed
  have d: "getToken e w appID appSecret api = (Inl (ObtainTokenFailed (Msg rs)), w1)
      \<and> store w1 = store w"
    if h: "sendLarkAPIRequest e w (tokenRequest appID appSecret api) 3 = (Inr resp, w1)
      \<and> unmarshal_token e (RespBody resp) = Inr rs \<and> Code rs \<noteq> 0
      \<and> store w ?key = None"
    using h issueToken_rejected [of e w appID appSecret api resp w1 rs]
      sendLarkAPIRequest_frame [of e w "tokenRequest appID appSecret api" 3 "Inr resp" w1]
    by (simp add: getToken_absent)
  from a b c d show ?thesis
    by blast
qed


text \<open>
  The witness: a first resolve for \<^verbatim>\<open>cli_a1\<close> at clock reading \<open>T0\<close> caches \<^verbatim>\<open>t-abc\<close> until
  \<open>T0\<close> + 200 s; a resolve at \<open>T0\<close> + 150 s returns it without a request; a resolve at
  \<open>T0\<close> + 300 s sends a second request to the issuance endpoint; a rejected issuance fails
  with the platform's message.
\<close>

theorem C4_token_cache_witness:
  "(sendLarkAPIRequest (envToken ''t-abc'' ''300'' 300) world0
        (tokenRequest ''cli_a1'' ''secret'' tokenURL) 3
        = (Inr (tokenResponse ''t-abc'' ''300''),
           world0\<lparr>calls := [tokenRequest ''cli_a1'' ''secret'' tokenURL]\<rparr>)
      \<and> unmarshal_token (envToken ''t-abc'' ''300'' 300) (RespBody (tokenResponse ''t-abc'' ''300''))
        = Inr \<lparr>Code = 0, Msg = ''ok'', AppAccessToken = ''t-abc'', Expire = 300\<rparr>
      \<and> store world0 (tokenCacheKey ''cli_a1'') = None)
   \<and> getToken (envToken ''t-abc'' ''300'' 300) world0 ''cli_a1'' ''secret'' tokenURL
       = (Inr ''t-abc'', worldCached (T0 + 200 * Second) 1)
   \<and> (sint T0 + 200000000000 < 2 ^ 63
      \<and> sint (clock (envToken ''t-abc'' ''300'' 300) 1) \<le> sint T0 + 200000000000)
   \<and> fst (getToken (envToken ''t-abc'' ''300'' 300) (worldCached (T0 + 200 * Second) 1)
        ''cli_a1'' ''secret'' tokenURL) = Inr ''t-abc''
   \<and> calls (snd (getToken (envToken ''t-abc'' ''300'' 300) (worldCached (T0 + 200 * Second) 1)
        ''cli_a1'' ''secret'' tokenURL)) = [tokenRequest ''cli_a1'' ''secret'' tokenURL]
   \<and> (0 \<le> sint T0 \<and> sint T0 + 200000000000 < sint (clock (envToken ''t-abc'' ''300'' 300) 2))
   \<and> (\<exists>rest. calls (snd (getToken (envToken ''t-abc'' ''300'' 300)
          (worldCached (T0 + 200 * Second) 2) ''cli_a1'' ''secret'' tokenURL))
        = [tokenRequest ''cli_a1'' ''secret'' tokenURL, tokenRequest ''cli_a1'' ''secret'' tokenURL]
          @ rest)
   \<and> (sendLarkAPIRequest envTokenRejected world0 (tokenRequest ''cli_a1'' ''secret'' tokenURL) 3
        = (Inr \<lparr>StatusCode = 200, RespBody = rejectedBody, RespHeaders = Map.empty\<rparr>,
           world0\<lparr>calls := [tokenRequest ''cli_a1'' ''secret'' tokenURL]\<rparr>)
      \<and> unmarshal_token envTokenRejected rejectedBody
        = Inr \<lparr>Code = 10003, Msg = ''invalid param'', AppAccessToken = [], Expire = 0\<rparr>)
   \<and> getToken envTokenRejected world0 ''cli_a1'' ''secret'' tokenURL
       = (Inl (ObtainTokenFailed ''invalid param''),
          world0\<lparr>calls := [tokenRequest ''cli_a1'' ''secret'' tokenURL]\<rparr>)"
proof -
  let ?e = "envToken ''t-abc'' ''300'' 300"
  let ?req = "tokenRequest ''cli_a1'' ''secret'' tokenURL"
  let ?rs = "\<lparr>Code = 0, Msg = ''ok'', AppAccessToken = ''t-abc'', Expire = 300\<rparr>"
  let ?rj = "\<lparr>Code = 10003, Msg = ''invalid param'', AppAccessToken = [], Expire = 0\<rparr>"
  let ?rresp = "\<lparr>StatusCode = 200, RespBody = rejectedBody, RespHeaders = Map.empty\<rparr>"
  have c0: "clock ?e 0 = T0"
    by (simp add: envToken_def T0_def)
  have s: "sendLarkAPIRequest ?e world0 ?req 3
      = (Inr (tokenResponse ''t-abc'' ''300''), world0\<lparr>calls := [?req]\<rparr>)"
    using first_call_ok [of ?e world0 ?req "tokenResponse ''t-abc'' ''300''"]
    by (simp add: envToken_def tokenResponse_def world0_def)
  have u: "unmarshal_token ?e (RespBody (tokenResponse ''t-abc'' ''300'')) = Inr ?rs"
    by (simp add: envToken_def tokenResponse_def)
  have m: "store world0 (tokenCacheKey ''cli_a1'') = None"
    by (simp add: world0_def New_cache_def)
  from C4_token_cache [where e = ?e and w = world0 and appID = "''cli_a1''"
      and appSecret = "''secret''" and api = tokenURL
      and resp = "tokenResponse ''t-abc'' ''300''" and ?w1.0 = "world0\<lparr>calls := [?req]\<rparr>"
      and rs = ?rs] s u m
  have "getToken ?e world0 ''cli_a1'' ''secret'' tokenURL
      = (Inr (AppAccessToken ?rs),
         world0\<lparr>calls := [?req],
                store := (store (world0\<lparr>calls := [?req]\<rparr>))(tokenCacheKey ''cli_a1'' \<mapsto>
                  \<lparr>item_value = AppAccessToken ?rs,
                   expiration = clock ?e (ticks (world0\<lparr>calls := [?req]\<rparr>)) + 200 * Second\<rparr>),
                ticks := ticks (world0\<lparr>calls := [?req]\<rparr>) + 1\<rparr>)"
    by simp
  moreover have "ticks (world0\<lparr>calls := [?req]\<rparr>) = 0"
    by (simp add: world0_def)
  ultimately have g1: "getToken ?e world0 ''cli_a1'' ''secret'' tokenURL
      = (Inr ''t-abc'', worldCached (T0 + 200 * Second) 1)"
    by (simp add: c0) (simp add: worldCached_def world0_def New_cache_def)
  have h2: "sint T0 + 200000000000 < 2 ^ 63
      \<and> sint (clock ?e 1) \<le> sint T0 + 200000000000"
    by (simp add: envToken_def T0_def)
  have st: "store (worldCached (T0 + 200 * Second) k) (tokenCacheKey ''cli_a1'')
      = Some \<lparr>item_value = ''t-abc'', expiration = T0 + 200 * Second\<rparr>" for k
    by (simp add: worldCached_def)
  have tk: "ticks (worldCached (T0 + 200 * Second) k) = k" for k
    by (simp add: worldCached_def world0_def)
  have cl: "calls (worldCached (T0 + 200 * Second) k) = [?req]" for k
    by (simp add: worldCached_def world0_def)
  from C4_token_cache [where e = ?e and w = "worldCached (T0 + 200 * Second) 1"
      and appID = "''cli_a1''" and appSecret = "''secret''" and api = tokenURL
      and tok = "''t-abc''" and ?t0.0 = T0] st [of 1] h2
  have g2: "fst (getToken ?e (worldCached (T0 + 200 * Second) 1) ''cli_a1'' ''secret'' tokenURL)
        = Inr ''t-abc''
      \<and> calls (snd (getToken ?e (worldCached (T0 + 200 * Second) 1) ''cli_a1'' ''secret''
          tokenURL)) = [?req]"
    by (simp add: tk cl)
  have h3: "0 \<le> sint T0 \<and> sint T0 + 200000000000 < sint (clock ?e 2)"
    by (simp add: envToken_def T0_def)
  have h3': "0 \<le> sint T0
      \<and> sint T0 + 200000000000 < sint (clock ?e (ticks (worldCached (T0 + 200 * Second) 2)))"
    using h3 by (simp only: tk)
  from C4_token_cache [where e = ?e and w = "worldCached (T0 + 200 * Second) 2"
      and appID = "''cli_a1''" and appSecret = "''secret''" and api = tokenURL
      and tok = "''t-abc''" and ?t0.0 = T0] st [of 2] h3'
  have "\<exists>rest. calls (snd (getToken ?e (worldCached (T0 + 200 * Second) 2) ''cli_a1''
          ''secret'' tokenURL)) = calls (worldCached (T0 + 200 * Second) 2) @ ?req # rest"
    by blast
  then have g3: "\<exists>rest. calls (snd (getToken ?e (worldCached (T0 + 200 * Second) 2) ''cli_a1''
          ''secret'' tokenURL)) = [?req, ?req] @ rest"
    by (simp add: cl)
  have s4: "sendLarkAPIRequest envTokenRejected world0 ?req 3
      = (Inr ?rresp, world0\<lparr>calls := [?req]\<rparr>)"
    using first_call_ok [of envTokenRejected world0 ?req ?rresp]
    by (simp add: envTokenRejected_def world0_def)
  have u4: "unmarshal_token envTokenRejected rejectedBody = Inr ?rj"
    by (simp add: envTokenRejected_def)
  from C4_token_cache [where e = envTokenRejected and w = world0 and appID = "''cli_a1''"
      and appSecret = "''secret''" and api = tokenURL
      and resp = ?rresp and ?w1.0 = "world0\<lparr>calls := [?req]\<rparr>" and rs = ?rj] s4 u4 m
  have g4: "getToken envTokenRejected world0 ''cli_a1'' ''secret'' tokenURL
       = (Inl (ObtainTokenFailed ''invalid param''), world0\<lparr>calls := [?req]\<rparr>)"
    by simp
  from s u m g1 h2 g2 h3 g3 s4 u4 g4 show ?thesis
    by blast
qed


text \<open>
  C4 as stated fails for a platform that answers code 0 with an empty token: the issuance
  succeeds and the empty token is cached for 200 seconds, but \<^verbatim>\<open>getToken\<close> takes a cached
  value only if \<^verbatim>\<open>token != ""\<close>, so the second resolve, 150 seconds later, calls the issuance
  endpoint again.
\<close>

theorem C4_counterexample:
  "fst (getToken (envToken [] ''300'' 300) world0 ''cli_a1'' ''secret'' ''https://open.feishu.cn/token'')
     = Inr []
   \<and> store (snd (getToken (envToken [] ''300'' 300) world0 ''cli_a1'' ''secret''
        ''https://open.feishu.cn/token'')) (tokenCacheKey ''cli_a1'')
     = Some \<lparr>item_value = [], expiration = 1700000000000000000 + 200 * Second\<rparr>
   \<and> length (calls (snd (getToken (envToken [] ''300'' 300) world0 ''cli_a1'' ''secret''
        ''https://open.feishu.cn/token''))) = 1
   \<and> clock (envToken [] ''300'' 300) 1 = 1700000000000000000 + 150 * Second
   \<and> length (calls (snd (getToken (envToken [] ''300'' 300)
        (snd (getToken (envToken [] ''300'' 300) world0 ''cli_a1'' ''secret''
           ''https://open.feishu.cn/token''))
        ''cli_a1'' ''secret'' ''https://open.feishu.cn/token''))) = 2"
  by (simp add: getToken_def cache_GetString_def GetString_def issueToken_def
      sendLarkAPIRequest_def sendLoop.simps executeRequest_def cache_SetString_def SetString_def
      tokenCacheKey_def New_cache_def envToken_def env0_def world0_def tokenBody_def
      tokenResponse_def T0_def word_sless_alt Second_def)


text \<open>
  C10, as amended.
  \<^item> For a reported \<^verbatim>\<open>expire\<close> of at most 100 (and at least \<open>-2^63 + 100\<close>, so that the
    subtraction does not wrap in 64 bits), the TTL \<^verbatim>\<open>expire - 100\<close> is zero or negative.
  \<^item> When the cache has no entry, the issuance request is answered with code 0 and the TTL
    is not positive, \<^verbatim>\<open>getToken\<close> returns the token and stores it with the expiry 0, the
    mark of an entry that never expires, reading no clock.
  \<^item> A resolve on a cache holding a token that is not the empty string with the expiry 0
    returns that token and leaves the whole state as it is, at any clock reading: no request
    is executed, and so it is for every later resolve.
\<close>

theorem C10_short_expiry_never_expires:
  "(sint (x :: int64) \<le> 100 \<and> - (2 ^ 63) + 100 \<le> sint x \<longrightarrow>
      sint (x - 100) = sint x - 100 \<and> \<not> 0 <s x - 100)
   \<and> (sendLarkAPIRequest e w (tokenRequest appID appSecret api) 3 = (Inr resp, w1)
      \<and> unmarshal_token e (RespBody resp) = Inr rs \<and> Code rs = 0
      \<and> \<not> 0 <s Expire rs - 100 \<and> store w (tokenCacheKey appID) = None \<longrightarrow>
      getToken e w appID appSecret api
        = (Inr (AppAccessToken rs),
           w1\<lparr>store := (store w1)(tokenCacheKey appID \<mapsto>
                  \<lparr>item_value = AppAccessToken rs, expiration = 0\<rparr>)\<rparr>))
   \<and> (store w (tokenCacheKey appID) = Some \<lparr>item_value = tok, expiration = 0\<rparr>
      \<and> tok \<noteq> [] \<longrightarrow>
      getToken e w appID appSecret api = (Inr tok, w))"
proof -
  have a: "sint (x - 100) = sint x - 100 \<and> \<not> 0 <s x - 100"
    if "sint x \<le> 100 \<and> - (2 ^ 63) + 100 \<le> sint x"
    using that sint_minus_100 [of x] by (simp add: word_sless_alt)
  have b: "getToken e w appID appSecret api
        = (Inr (AppAccessToken rs),
           w1\<lparr>store := (store w1)(tokenCacheKey appID \<mapsto>
                  \<lparr>item_value = AppAccessToken rs, expiration = 0\<rparr>)\<rparr>)"
    if h: "sendLarkAPIRequest e w (tokenRequest appID appSecret api) 3 = (Inr resp, w1)
      \<and> unmarshal_token e (RespBody resp) = Inr rs \<and> Code rs = 0
      \<and> \<not> 0 <s Expire rs - 100 \<and> store w (tokenCacheKey appID) = None"
    using h issueToken_success [of e w appID appSecret api resp w1 rs]
    by (simp add: getToken_absent cache_SetString_def SetString_def)
  have c: "getToken e w appID appSecret api = (Inr tok, w)"
    if h: "store w (tokenCacheKey appID) = Some \<lparr>item_value = tok, expiration = 0\<rparr> \<and> tok \<noteq> []"
    using h by (simp add: getToken_def cache_GetString_def GetString_def)
  from a b c show ?thesis
    by blast
qed


text \<open>
  The witness: an issuance reporting \<^verbatim>\<open>expire = 100\<close> stores \<^verbatim>\<open>t-abc\<close> with the expiry 0, and
  a resolve on the resulting state returns it and changes nothing.
\<close>

theorem C10_short_expiry_never_expires_witness:
  "(sint (100 :: int64) \<le> 100 \<and> - (2 ^ 63) + 100 \<le> sint (100 :: int64))
   \<and> \<not> 0 <s (100 :: int64) - 100
   \<and> (sendLarkAPIRequest (envToken ''t-abc'' ''100'' 100) world0
         (tokenRequest ''cli_a1'' ''secret'' tokenURL) 3
        = (Inr (tokenResponse ''t-abc'' ''100''),
           world0\<lparr>calls := [tokenRequest ''cli_a1'' ''secret'' tokenURL]\<rparr>)
      \<and> unmarshal_token (envToken ''t-abc'' ''100'' 100) (RespBody (tokenResponse ''t-abc'' ''100''))
        = Inr \<lparr>Code = 0, Msg = ''ok'', AppAccessToken = ''t-abc'', Expire = 100\<rparr>
      \<and> store world0 (tokenCacheKey ''cli_a1'') = None)
   \<and> getToken (envToken ''t-abc'' ''100'' 100) world0 ''cli_a1'' ''secret'' tokenURL
       = (Inr ''t-abc'', worldCached 0 0)
   \<and> getToken (envToken ''t-abc'' ''100'' 100) (worldCached 0 0) ''cli_a1'' ''secret'' tokenURL
       = (Inr ''t-abc'', worldCached 0 0)"
proof -
  let ?e = "envToken ''t-abc'' ''100'' 100"
  let ?req = "tokenRequest ''cli_a1'' ''secret'' tokenURL"
  let ?rs = "\<lparr>Code = 0, Msg = ''ok'', AppAccessToken = ''t-abc'', Expire = 100\<rparr>"
  have h0: "sint (100 :: int64) \<le> 100 \<and> - (2 ^ 63) + 100 \<le> sint (100 :: int64)"
    by simp
  have s: "sendLarkAPIRequest ?e world0 ?req 3
      = (Inr (tokenResponse ''t-abc'' ''100''), world0\<lparr>calls := [?req]\<rparr>)"
    using first_call_ok [of ?e world0 ?req "tokenResponse ''t-abc'' ''100''"]
    by (simp add: envToken_def tokenResponse_def world0_def)
  have u: "unmarshal_token ?e (RespBody (tokenResponse ''t-abc'' ''100'')) = Inr ?rs"
    by (simp add: envToken_def tokenResponse_def)
  have m: "store world0 (tokenCacheKey ''cli_a1'') = None"
    by (simp add: world0_def New_cache_def)
  note T = C10_short_expiry_never_expires [where x = 100 and e = ?e and w = world0
      and appID = "''cli_a1''" and appSecret = "''secret''" and api = tokenURL
      and resp = "tokenResponse ''t-abc'' ''100''" and ?w1.0 = "world0\<lparr>calls := [?req]\<rparr>"
      and rs = ?rs]
  from T h0 have z: "\<not> 0 <s (100 :: int64) - 100"
    by blast
  from T s u m z have "getToken ?e world0 ''cli_a1'' ''secret'' tokenURL
      = (Inr (AppAccessToken ?rs),
         world0\<lparr>calls := [?req],
                store := (store (world0\<lparr>calls := [?req]\<rparr>))(tokenCacheKey ''cli_a1'' \<mapsto>
                  \<lparr>item_value = AppAccessToken ?rs, expiration = 0\<rparr>)\<rparr>)"
    by simp
  then have g1: "getToken ?e world0 ''cli_a1'' ''secret'' tokenURL = (Inr ''t-abc'', worldCached 0 0)"
    by (simp add: worldCached_def world0_def New_cache_def)
  have c: "store (worldCached 0 0) (tokenCacheKey ''cli_a1'')
      = Some \<lparr>item_value = ''t-abc'', expiration = 0\<rparr> \<and> ''t-abc'' \<noteq> []"
    by (simp add: worldCached_def)
  from C10_short_expiry_never_expires [where e = ?e and w = "worldCached 0 0"
      and appID = "''cli_a1''" and appSecret = "''secret''" and api = tokenURL and tok = "''t-abc''"] c
  have g2: "getToken ?e (worldCached 0 0) ''cli_a1'' ''secret'' tokenURL
      = (Inr ''t-abc'', worldCached 0 0)"
    by blast
  from h0 z s u m g1 g2 show ?thesis
    by blast
qed


text \<open>
  C10 as stated fails for a platform that answers code 0, \<^verbatim>\<open>expire = 100\<close> and an empty
  token: the empty token is stored as a never-expiring entry, but \<^verbatim>\<open>getToken\<close> takes a
  cached value only if \<^verbatim>\<open>token != ""\<close>, so the next resolve calls the issuance endpoint
  again.
\<close>

theorem C10_counterexample:
  "sint (100 :: int64) \<le> 100
   \<and> fst (getToken (envToken [] ''100'' 100) world0 ''cli_a1'' ''secret'' tokenURL) = Inr []
   \<and> store (snd (getToken (envToken [] ''100'' 100) world0 ''cli_a1'' ''secret'' tokenURL))
        (tokenCacheKey ''cli_a1'')
     = Some \<lparr>item_value = [], expiration = 0\<rparr>
   \<and> length (calls (snd (getToken (envToken [] ''100'' 100) world0 ''cli_a1'' ''secret''
        tokenURL))) = 1
   \<and> length (calls (snd (getToken (envToken [] ''100'' 100)
        (snd (getToken (envToken [] ''100'' 100) world0 ''cli_a1'' ''secret'' tokenURL))
        ''cli_a1'' ''secret'' tokenURL))) = 2"
  by (simp add: getToken_def cache_GetString_def GetString_def issueToken_def
      sendLarkAPIRequest_def sendLoop.simps executeRequest_def cache_SetString_def SetString_def
      tokenCacheKey_def New_cache_def envToken_def env0_def world0_def tokenBody_def
      tokenResponse_def T0_def word_sless_alt Second_def)


section \<open>Properties of the routing and of the webhook sender\<close>

text \<open>
  C7, as amended. The channel of a message is its own channel name, or the default of the
  notifier when that is empty. The webhooks are looked up first:
  \<^item> when the channel is neither a webhook nor an application, \<^verbatim>\<open>sendMsg\<close> fails with
    "channel is not found" and the state is unchanged;
  \<^item> when the channel is no webhook, is an application, and the recipient is empty,
    \<^verbatim>\<open>sendMsg\<close> fails with "sendTo is required" and the state is unchanged: no token
    function has run and no request has been executed;
  \<^item> when the channel is a webhook, the message is sent through the webhook, also when an
    application has the same name.
\<close>

theorem C7_routing:
  "resolveChannel n m
     = (if SendChannelName m = [] then defaultSendChannelName n else SendChannelName m)
   \<and> (botWebhooks n (resolveChannel n m) = None \<and> apps n (resolveChannel n m) = None \<longrightarrow>
        sendMsg e n w m = (Some (ChannelNotFound (resolveChannel n m)), w))
   \<and> (botWebhooks n (resolveChannel n m) = None \<and> apps n (resolveChannel n m) = Some a
        \<and> SendTo m = [] \<longrightarrow>
        sendMsg e n w m = (Some (SendToRequired (resolveChannel n m)), w))
   \<and> (botWebhooks n (resolveChannel n m) = Some webhook \<longrightarrow>
        sendMsg e n w m = sendBotWebhookMessage e w webhook m)"
  by (simp add: sendMsg_def resolveChannel_def)


text \<open>
  The witness: on a notifier with the webhook "ops" (the default) and the application
  "lark_1", a message to "nowhere" is refused, a message to "lark_1" without a recipient is
  refused, and a message without a channel goes to the webhook.
\<close>

theorem C7_routing_witness:
  "(botWebhooks nTwo (resolveChannel nTwo (mText\<lparr>SendChannelName := ''nowhere''\<rparr>)) = None
      \<and> apps nTwo (resolveChannel nTwo (mText\<lparr>SendChannelName := ''nowhere''\<rparr>)) = None)
   \<and> sendMsg env0 nTwo world0 (mText\<lparr>SendChannelName := ''nowhere''\<rparr>)
       = (Some (ChannelNotFound ''nowhere''), world0)
   \<and> (botWebhooks nTwo (resolveChannel nTwo (mText\<lparr>SendChannelName := ''lark_1''\<rparr>)) = None
      \<and> apps nTwo (resolveChannel nTwo (mText\<lparr>SendChannelName := ''lark_1''\<rparr>))
          = Some \<lparr>token = CustomToken staticToken, msgAPI = SpliceStr [larkHost, messageAPI]\<rparr>
      \<and> SendTo (mText\<lparr>SendChannelName := ''lark_1''\<rparr>) = [])
   \<and> sendMsg env0 nTwo world0 (mText\<lparr>SendChannelName := ''lark_1''\<rparr>)
       = (Some (SendToRequired ''lark_1''), world0)
   \<and> botWebhooks nTwo (resolveChannel nTwo (mText\<lparr>SendChannelName := []\<rparr>)) = Some hookURL
   \<and> sendMsg env0 nTwo world0 (mText\<lparr>SendChannelName := []\<rparr>)
       = sendBotWebhookMessage env0 world0 hookURL (mText\<lparr>SendChannelName := []\<rparr>)"
proof -
  have r1: "resolveChannel nTwo (mText\<lparr>SendChannelName := ''nowhere''\<rparr>) = ''nowhere''"
    and r2: "resolveChannel nTwo (mText\<lparr>SendChannelName := ''lark_1''\<rparr>) = ''lark_1''"
    and r3: "resolveChannel nTwo (mText\<lparr>SendChannelName := []\<rparr>) = ''ops''"
    by (simp_all add: resolveChannel_def nTwo_def)
  have h1: "botWebhooks nTwo (resolveChannel nTwo (mText\<lparr>SendChannelName := ''nowhere''\<rparr>)) = None
      \<and> apps nTwo (resolveChannel nTwo (mText\<lparr>SendChannelName := ''nowhere''\<rparr>)) = None"
    unfolding r1 by (simp add: nTwo_def)
  have h2: "botWebhooks nTwo (resolveChannel nTwo (mText\<lparr>SendChannelName := ''lark_1''\<rparr>)) = None
      \<and> apps nTwo (resolveChannel nTwo (mText\<lparr>SendChannelName := ''lark_1''\<rparr>))
          = Some \<lparr>token = CustomToken staticToken, msgAPI = SpliceStr [larkHost, messageAPI]\<rparr>
      \<and> SendTo (mText\<lparr>SendChannelName := ''lark_1''\<rparr>) = []"
    unfolding r2 by (simp add: nTwo_def mText_def)
  have h3: "botWebhooks nTwo (resolveChannel nTwo (mText\<lparr>SendChannelName := []\<rparr>)) = Some hookURL"
    unfolding r3 by (simp add: nTwo_def)
  from C7_routing [where n = nTwo and m = "mText\<lparr>SendChannelName := ''nowhere''\<rparr>"
      and e = env0 and w = world0] h1
  have a: "sendMsg env0 nTwo world0 (mText\<lparr>SendChannelName := ''nowhere''\<rparr>)
       = (Some (ChannelNotFound ''nowhere''), world0)"
    unfolding r1 by blast
  from C7_routing [where n = nTwo and m = "mText\<lparr>SendChannelName := ''lark_1''\<rparr>"
      and e = env0 and w = world0
      and a = "\<lparr>token = CustomToken staticToken, msgAPI = SpliceStr [larkHost, messageAPI]\<rparr>"] h2
  have b: "sendMsg env0 nTwo world0 (mText\<lparr>SendChannelName := ''lark_1''\<rparr>)
       = (Some (SendToRequired ''lark_1''), world0)"
    unfolding r2 by blast
  from C7_routing [where n = nTwo and m = "mText\<lparr>SendChannelName := []\<rparr>"
      and e = env0 and w = world0 and webhook = hookURL] h3
  have c: "sendMsg env0 nTwo world0 (mText\<lparr>SendChannelName := []\<rparr>)
       = sendBotWebhookMessage env0 world0 hookURL (mText\<lparr>SendChannelName := []\<rparr>)"
    by blast
  from h1 a h2 b h3 c show ?thesis
    by blast
qed


text \<open>
  C7 as stated fails when a webhook and an application have the same name, which
  \<^verbatim>\<open>New\<close> accepts: a message to "ops" with an empty recipient is not refused with the
  missing-recipient error; it is posted to the webhook.
\<close>

theorem C7_counterexample:
  "New env0 cfgBoth = Inr nBoth
   \<and> resolveChannel nBoth mOps = ''ops''
   \<and> apps nBoth ''ops''
       = Some \<lparr>token = CustomToken staticToken, msgAPI = SpliceStr [feishuHost, messageAPI]\<rparr>
   \<and> SendTo mOps = []
   \<and> fst (sendMsg env0 nBoth world0 mOps) = None
   \<and> calls (snd (sendMsg env0 nBoth world0 mOps))
       = [botRequest hookURL
            [(''msg_type'', VString ''text''),
             (''content'', VMap [(''text'', VString ''build failed'')])]]"
  by (simp add: New_def validateConfig_def cfgBoth_def env0_def initApp_def mOps_def nBoth_def
      sendMsg_def resolveChannel_def sendBotWebhookMessage_def botParams_def
      sendLarkAPIRequest_def sendLoop.simps executeRequest_def world0_def okResponse_def)

text \<open>
  C9. For a message whose type is none of "text", "post", "share_chat", "image" and
  "interactive", sent through a webhook:
  \<^item> the parameters of the request are the \<^verbatim>\<open>msg_type\<close> alone, and the request is a POST to
    the webhook with exactly these parameters as body;
  \<^item> the request is executed (it is the first request added to the record), whatever the
    type;
  \<^item> the result is the one of the executor and of the response: an executor error, a
    response that does not decode, the platform's message when its code is not 0, and
    success when the code is 0; it is never the error "invalid message type";
  \<^item> \<^verbatim>\<open>sendMsg\<close> sends a message whose channel is a webhook this way.
\<close>

theorem C9_unknown_type_webhook:
  "MsgType m \<notin> {''text'', ''post'', ''share_chat'', ''image'', ''interactive''} \<Longrightarrow>
   botParams e m = Inr [(''msg_type'', VString (MsgType m))]
   \<and> sendBotWebhookMessage e w webhook m
       = (case sendLarkAPIRequest e w
                 (botRequest webhook [(''msg_type'', VString (MsgType m))]) 3 of
            (Inl err, w1) \<Rightarrow> (Some (SendBotFailed err), w1)
          | (Inr response, w1) \<Rightarrow>
              (case unmarshal_message e (RespBody response) of
                 Inl err \<Rightarrow> (Some (ParseResponseFailed err), w1)
               | Inr rs \<Rightarrow>
                   if RespCode rs \<noteq> 0 then (Some (BotRejected (RespMsg rs)), w1)
                   else (None, w1)))
   \<and> Method (botRequest webhook [(''msg_type'', VString (MsgType m))]) = ''POST''
   \<and> URL (botRequest webhook [(''msg_type'', VString (MsgType m))]) = webhook
   \<and> Body (botRequest webhook [(''msg_type'', VString (MsgType m))])
       = VMap [(''msg_type'', VString (MsgType m))]
   \<and> (\<exists>rest. calls (snd (sendBotWebhookMessage e w webhook m))
         = calls w @ botRequest webhook [(''msg_type'', VString (MsgType m))] # rest)
   \<and> fst (sendBotWebhookMessage e w webhook m) \<noteq> Some (InvalidMessageType t)
   \<and> (botWebhooks n (resolveChannel n m) = Some webhook \<longrightarrow>
        sendMsg e n w m = sendBotWebhookMessage e w webhook m)
   \<and> (transport e (length (calls w)) (botRequest webhook [(''msg_type'', VString (MsgType m))])
          = Inr response
        \<and> StatusCode response \<noteq> 429 \<and> unmarshal_message e (RespBody response) = Inr rs \<longrightarrow>
        fst (sendBotWebhookMessage e w webhook m)
          = (if RespCode rs = 0 then None else Some (BotRejected (RespMsg rs))))"
proof -
  assume t: "MsgType m \<notin> {''text'', ''post'', ''share_chat'', ''image'', ''interactive''}"
  let ?req = "botRequest webhook [(''msg_type'', VString (MsgType m))]"
  from t have p: "botParams e m = Inr [(''msg_type'', VString (MsgType m))]"
    by (simp add: botParams_def)
  have d: "sendBotWebhookMessage e w webhook m
       = (case sendLarkAPIRequest e w ?req 3 of
            (Inl err, w1) \<Rightarrow> (Some (SendBotFailed err), w1)
          | (Inr response, w1) \<Rightarrow>
              (case unmarshal_message e (RespBody response) of
                 Inl err \<Rightarrow> (Some (ParseResponseFailed err), w1)
               | Inr rs \<Rightarrow>
                   if RespCode rs \<noteq> 0 then (Some (BotRejected (RespMsg rs)), w1)
                   else (None, w1)))"
    by (simp add: sendBotWebhookMessage_def p)
  obtain r w1 where rw: "sendLarkAPIRequest e w ?req 3 = (r, w1)"
    by (cases "sendLarkAPIRequest e w ?req 3")
  have w1: "snd (sendBotWebhookMessage e w webhook m) = w1"
    using rw by (auto simp: d split: sum.splits)
  obtain rest where "calls (snd (sendLarkAPIRequest e w ?req 3)) = calls w @ ?req # rest"
    using sendLarkAPIRequest_calls_first by blast
  with rw w1 have c: "\<exists>rest. calls (snd (sendBotWebhookMessage e w webhook m)) = calls w @ ?req # rest"
    by simp
  have ne: "fst (sendBotWebhookMessage e w webhook m) \<noteq> Some (InvalidMessageType t)"
    using rw by (auto simp: d split: sum.splits)
  have route: "botWebhooks n (resolveChannel n m) = Some webhook \<longrightarrow>
        sendMsg e n w m = sendBotWebhookMessage e w webhook m"
    by (simp add: sendMsg_def)
  have biz: "transport e (length (calls w)) ?req = Inr response
        \<and> StatusCode response \<noteq> 429 \<and> unmarshal_message e (RespBody response) = Inr rs \<longrightarrow>
        fst (sendBotWebhookMessage e w webhook m)
          = (if RespCode rs = 0 then None else Some (BotRejected (RespMsg rs)))"
    by (auto simp: d sendLarkAPIRequest_def sendLoop_other_status)
  from p d c ne route biz show ?thesis
    by (simp add: botRequest_def)
qed


text \<open>
  The witness: a message of type "file" to the webhook of a platform that accepts it.
\<close>

theorem C9_unknown_type_webhook_witness:
  "MsgType mFile \<notin> {''text'', ''post'', ''share_chat'', ''image'', ''interactive''}
   \<and> botParams env0 mFile = Inr [(''msg_type'', VString ''file'')]
   \<and> sendBotWebhookMessage env0 world0 hookURL mFile
       = (None, world0\<lparr>calls := [botRequest hookURL [(''msg_type'', VString ''file'')]]\<rparr>)
   \<and> Body (botRequest hookURL [(''msg_type'', VString ''file'')])
       = VMap [(''msg_type'', VString ''file'')]"
proof -
  have t: "MsgType mFile \<notin> {''text'', ''post'', ''share_chat'', ''image'', ''interactive''}"
    by (simp add: mFile_def)
  have mt: "MsgType mFile = ''file''"
    by (simp add: mFile_def)
  let ?req = "botRequest hookURL [(''msg_type'', VString ''file'')]"
  have s: "sendLarkAPIRequest env0 world0 ?req 3 = (Inr okResponse, world0\<lparr>calls := [?req]\<rparr>)"
    using first_call_ok [of env0 world0 ?req okResponse]
    by (simp add: env0_def okResponse_def world0_def)
  have u: "unmarshal_message env0 (RespBody okResponse) = Inr \<lparr>RespCode = 0, RespMsg = ''success''\<rparr>"
    by (simp add: env0_def okResponse_def)
  note T = C9_unknown_type_webhook [OF t, where e = env0 and w = world0 and webhook = hookURL]
  from T have p: "botParams env0 mFile = Inr [(''msg_type'', VString ''file'')]"
    unfolding mt by blast
  from T have "sendBotWebhookMessage env0 world0 hookURL mFile
       = (case sendLarkAPIRequest env0 world0 ?req 3 of
            (Inl err, w1) \<Rightarrow> (Some (SendBotFailed err), w1)
          | (Inr response, w1) \<Rightarrow>
              (case unmarshal_message env0 (RespBody response) of
                 Inl err \<Rightarrow> (Some (ParseResponseFailed err), w1)
               | Inr rs \<Rightarrow>
                   if RespCode rs \<noteq> 0 then (Some (BotRejected (RespMsg rs)), w1)
                   else (None, w1)))"
    unfolding mt by blast
  then have r: "sendBotWebhookMessage env0 world0 hookURL mFile = (None, world0\<lparr>calls := [?req]\<rparr>)"
    by (simp add: s u)
  from T have b: "Body ?req = VMap [(''msg_type'', VString ''file'')]"
    unfolding mt by blast
  from t p r b show ?thesis
    by blast
qed


section \<open>Properties of the construction\<close>

lemma initApps_dom:
  "initApps ls acc = Inr as \<Longrightarrow> dom as = dom acc \<union> fst ` set ls"
proof (induction ls arbitrary: acc)
  case Nil
  then show ?case by simp
next
  case (Cons p ls)
  obtain name lark where p: "p = (name, lark)"
    by (cases p)
  from Cons.prems p obtain a where a: "initApp name lark = Inr a"
      and r: "initApps ls (acc(name \<mapsto> a)) = Inr as"
    by (auto split: sum.splits)
  from Cons.IH [OF r] p show ?case
    by auto
qed

lemma validateConfig_Inr:
  "validateConfig e config = Inr config' \<Longrightarrow>
   (BotWebhooks config \<noteq> [] \<or> Larks config \<noteq> []) \<and> DefaultSendChannelName config \<noteq> []
   \<and> DefaultSendChannelName config' = DefaultSendChannelName config
   \<and> BotWebhooks config' = BotWebhooks config \<and> Larks config' = Larks config"
  by (auto simp: validateConfig_def Let_def split: if_splits option.splits)


text \<open>
  C3, as amended. \<^verbatim>\<open>New\<close> fails with a configuration error when there is neither a
  webhook nor an application, and when the default send-channel name is empty. A notifier
  that \<^verbatim>\<open>New\<close> returns has the default name, the webhooks and the application names of the
  configuration, the default name is not empty and there is at least one target; that the
  default name is one of the targets is not checked. On a notifier whose default name is no
  target, a message without a channel name fails at dispatch with "channel is not found".
\<close>

theorem C3_construction:
  "(New e config = Inr n \<longrightarrow>
      (BotWebhooks config \<noteq> [] \<or> Larks config \<noteq> []) \<and> DefaultSendChannelName config \<noteq> []
      \<and> defaultSendChannelName n = DefaultSendChannelName config
      \<and> botWebhooks n = map_of (BotWebhooks config)
      \<and> dom (apps n) = fst ` set (Larks config))
   \<and> (BotWebhooks config = [] \<and> Larks config = [] \<longrightarrow> New e config = Inl NoSendingChannels)
   \<and> ((BotWebhooks config \<noteq> [] \<or> Larks config \<noteq> []) \<and> DefaultSendChannelName config = [] \<longrightarrow>
        New e config = Inl DefaultChannelRequired)
   \<and> (SendChannelName m = [] \<and> botWebhooks n (defaultSendChannelName n) = None
        \<and> apps n (defaultSendChannelName n) = None \<longrightarrow>
        sendMsg e n w m = (Some (ChannelNotFound (defaultSendChannelName n)), w))"
proof -
  have a: "(BotWebhooks config \<noteq> [] \<or> Larks config \<noteq> []) \<and> DefaultSendChannelName config \<noteq> []
      \<and> defaultSendChannelName n = DefaultSendChannelName config
      \<and> botWebhooks n = map_of (BotWebhooks config)
      \<and> dom (apps n) = fst ` set (Larks config)"
    if ok: "New e config = Inr n"
  proof -
    from ok obtain config' where v: "validateConfig e config = Inr config'"
      by (auto simp: New_def split: sum.splits)
    with ok obtain as where as: "initApps (Larks config') Map.empty = Inr as"
      and n: "n = \<lparr>defaultSendChannelName = DefaultSendChannelName config', apps = as,
                   botWebhooks = map_of (BotWebhooks config')\<rparr>"
      by (auto simp: New_def split: sum.splits if_splits)
    from validateConfig_Inr [OF v] initApps_dom [OF as] n show ?thesis
      by simp
  qed
  have b: "New e config = Inl NoSendingChannels"
    if "BotWebhooks config = [] \<and> Larks config = []"
    using that by (simp add: New_def validateConfig_def)
  have c: "New e config = Inl DefaultChannelRequired"
    if "(BotWebhooks config \<noteq> [] \<or> Larks config \<noteq> []) \<and> DefaultSendChannelName config = []"
    using that by (auto simp: New_def validateConfig_def)
  have d: "sendMsg e n w m = (Some (ChannelNotFound (defaultSendChannelName n)), w)"
    if "SendChannelName m = [] \<and> botWebhooks n (defaultSendChannelName n) = None
        \<and> apps n (defaultSendChannelName n) = None"
    using that by (simp add: sendMsg_def resolveChannel_def)
  from a b c d show ?thesis
    by blast
qed


text \<open>
  The witness: the configuration with the webhook "ops" as default is accepted; the
  configuration without targets and the one without a default name are refused; on a
  notifier with the default "alerts" and the webhook "ops", a message without a channel is
  refused at dispatch.
\<close>

theorem C3_construction_witness:
  "New env0 cfgOps = Inr nOps
   \<and> (BotWebhooks cfgOps \<noteq> [] \<and> DefaultSendChannelName cfgOps \<noteq> []
      \<and> defaultSendChannelName nOps = DefaultSendChannelName cfgOps
      \<and> botWebhooks nOps = map_of (BotWebhooks cfgOps)
      \<and> dom (apps nOps) = fst ` set (Larks cfgOps))
   \<and> (BotWebhooks cfgEmpty = [] \<and> Larks cfgEmpty = [])
   \<and> New env0 cfgEmpty = Inl NoSendingChannels
   \<and> (BotWebhooks (cfgOps\<lparr>DefaultSendChannelName := []\<rparr>) \<noteq> []
      \<and> DefaultSendChannelName (cfgOps\<lparr>DefaultSendChannelName := []\<rparr>) = [])
   \<and> New env0 (cfgOps\<lparr>DefaultSendChannelName := []\<rparr>) = Inl DefaultChannelRequired
   \<and> (SendChannelName (mText\<lparr>SendChannelName := []\<rparr>) = []
      \<and> botWebhooks (nOps\<lparr>defaultSendChannelName := ''alerts''\<rparr>)
          (defaultSendChannelName (nOps\<lparr>defaultSendChannelName := ''alerts''\<rparr>)) = None
      \<and> apps (nOps\<lparr>defaultSendChannelName := ''alerts''\<rparr>)
          (defaultSendChannelName (nOps\<lparr>defaultSendChannelName := ''alerts''\<rparr>)) = None)
   \<and> sendMsg env0 (nOps\<lparr>defaultSendChannelName := ''alerts''\<rparr>) world0
        (mText\<lparr>SendChannelName := []\<rparr>)
       = (Some (ChannelNotFound ''alerts''), world0)"
proof -
  have n: "New env0 cfgOps = Inr nOps"
    by (simp add: New_def validateConfig_def cfgOps_def cfgDangling_def env0_def nOps_def)
  have e: "BotWebhooks cfgEmpty = [] \<and> Larks cfgEmpty = []"
    by (simp add: cfgEmpty_def)
  have d: "BotWebhooks (cfgOps\<lparr>DefaultSendChannelName := []\<rparr>) \<noteq> []
      \<and> DefaultSendChannelName (cfgOps\<lparr>DefaultSendChannelName := []\<rparr>) = []"
    by (simp add: cfgOps_def cfgDangling_def)
  have m: "SendChannelName (mText\<lparr>SendChannelName := []\<rparr>) = []
      \<and> botWebhooks (nOps\<lparr>defaultSendChannelName := ''alerts''\<rparr>)
          (defaultSendChannelName (nOps\<lparr>defaultSendChannelName := ''alerts''\<rparr>)) = None
      \<and> apps (nOps\<lparr>defaultSendChannelName := ''alerts''\<rparr>)
          (defaultSendChannelName (nOps\<lparr>defaultSendChannelName := ''alerts''\<rparr>)) = None"
    by (simp add: nOps_def)
  have bw: "BotWebhooks cfgOps \<noteq> []"
    by (simp add: cfgOps_def cfgDangling_def)
  from C3_construction [where e = env0 and config = cfgOps and n = nOps] n
  have "DefaultSendChannelName cfgOps \<noteq> []
      \<and> defaultSendChannelName nOps = DefaultSendChannelName cfgOps
      \<and> botWebhooks nOps = map_of (BotWebhooks cfgOps)
      \<and> dom (apps nOps) = fst ` set (Larks cfgOps)"
    by blast
  with bw have a: "BotWebhooks cfgOps \<noteq> [] \<and> DefaultSendChannelName cfgOps \<noteq> []
      \<and> defaultSendChannelName nOps = DefaultSendChannelName cfgOps
      \<and> botWebhooks nOps = map_of (BotWebhooks cfgOps)
      \<and> dom (apps nOps) = fst ` set (Larks cfgOps)"
    by blast
  from C3_construction [where e = env0 and config = cfgEmpty] e
  have b: "New env0 cfgEmpty = Inl NoSendingChannels"
    by blast
  from C3_construction [where e = env0 and config = "cfgOps\<lparr>DefaultSendChannelName := []\<rparr>"] d
  have c: "New env0 (cfgOps\<lparr>DefaultSendChannelName := []\<rparr>) = Inl DefaultChannelRequired"
    by blast
  from C3_construction [where e = env0 and n = "nOps\<lparr>defaultSendChannelName := ''alerts''\<rparr>"
      and m = "mText\<lparr>SendChannelName := []\<rparr>" and w = world0] m
  have "sendMsg env0 (nOps\<lparr>defaultSendChannelName := ''alerts''\<rparr>) world0
        (mText\<lparr>SendChannelName := []\<rparr>)
       = (Some (ChannelNotFound
            (defaultSendChannelName (nOps\<lparr>defaultSendChannelName := ''alerts''\<rparr>))), world0)"
    by blast
  then have f: "sendMsg env0 (nOps\<lparr>defaultSendChannelName := ''alerts''\<rparr>) world0
        (mText\<lparr>SendChannelName := []\<rparr>)
       = (Some (ChannelNotFound ''alerts''), world0)"
    by simp
  from n a e b d c m f show ?thesis
    by blast
qed


text \<open>
  C3 as stated fails: \<^verbatim>\<open>New\<close> accepts the configuration whose default name "alerts" is
  neither a webhook nor an application.
\<close>

theorem C3_counterexample:
  "New env0 cfgDangling = Inr nDangling
   \<and> defaultSendChannelName nDangling = ''alerts''
   \<and> botWebhooks nDangling ''alerts'' = None
   \<and> apps nDangling ''alerts'' = None"
  by (simp add: New_def validateConfig_def cfgDangling_def env0_def nDangling_def nOps_def)

end
